theory Spec2Isabelle
  imports Main "HOL-Library.Word" "HOL-Library.Monad_Syntax"
begin

unbundle bit_operations_syntax

section \<open>Machine types and undefined behaviour\<close>

type_synonym uint8 = "8 word"
type_synonym uint32 = "32 word"
type_synonym uint64 = "64 word"

text \<open>The lane-wise view of the state, \<^verbatim>\<open>uint64_t A[25]\<close>.\<close>

type_synonym lanes = "uint64 list"

text \<open>Operations whose C behaviour can be undefined (a shift by 64 or more, an access
  outside an array) return an option: \<open>None\<close> stands for undefined behaviour, and a
  loop whose body can be undefined is a fold that stops at the first \<open>None\<close>.\<close>

fun ofold :: "('s \<Rightarrow> 'a \<Rightarrow> 's option) \<Rightarrow> 's \<Rightarrow> 'a list \<Rightarrow> 's option" where
  "ofold f s [] = Some s"
| "ofold f s (x # xs) = (case f s x of None \<Rightarrow> None | Some s' \<Rightarrow> ofold f s' xs)"

section \<open>The permutation engine (sha3.c, keccakf_1600)\<close>

text \<open>\<^verbatim>\<open>rotl64\<close> returns \<^verbatim>\<open>(x << n) | (x >> (64 - n))\<close>. The count \<open>n\<close> is a
  \<^verbatim>\<open>size_t\<close>; both shifts are defined only when their counts are below 64, that is
  when \<open>1 \<le> n \<le> 63\<close> (\<open>64 - n\<close> wraps around for \<open>n > 64\<close>).\<close>

definition rotl64_val :: "uint64 \<Rightarrow> nat \<Rightarrow> uint64" where
  "rotl64_val x n = (push_bit n x) OR (drop_bit (64 - n) x)"

definition rotl64 :: "uint64 \<Rightarrow> nat \<Rightarrow> uint64 option" where
  "rotl64 x n = (if n < 64 \<and> 64 - n < 64 then Some (rotl64_val x n) else None)"

text \<open>The round constants, the same table in both versions of the function.\<close>

definition RC :: "uint64 list" where
  "RC = [
    0x0000000000000001, 0x0000000000008082,
    0x800000000000808a, 0x8000000080008000,
    0x000000000000808b, 0x0000000080000001,
    0x8000000080008081, 0x8000000000008009,
    0x000000000000008a, 0x0000000000000088,
    0x0000000080008009, 0x000000008000000a,
    0x000000008000808b, 0x800000000000008b,
    0x8000000000008089, 0x8000000000008003,
    0x8000000000008002, 0x8000000000000080,
    0x000000000000800a, 0x800000008000000a,
    0x8000000080008081, 0x8000000000008080,
    0x0000000080000001, 0x8000000080008008]"

subsection \<open>The loop version (built with \<^verbatim>\<open>SHA3_KECCAKF_LOOP\<close>)\<close>

definition rho :: "nat list" where
  "rho = [
         1, 62, 28, 27,
    36, 44,  6, 55, 20,
     3, 10, 43, 25, 39,
    41, 45, 15, 21,  8,
    18,  2, 61, 56, 14]"

definition pi :: "nat list" where
  "pi = [
    1,  6,  9, 22, 14, 20,
    2, 12, 13, 19, 23, 15,
    4, 24, 21,  8, 16,  5,
    3, 18, 17, 11,  7, 10]"

text \<open>\<^verbatim>\<open>parity[i] = A[i] ^ A[i + 5] ^ A[i + 10] ^ A[i + 15] ^ A[i + 20]\<close> for \<open>i\<close> in 0..4.\<close>

definition parity_of :: "lanes \<Rightarrow> uint64 list" where
  "parity_of A =
    map (\<lambda>i. A ! i XOR A ! (i + 5) XOR A ! (i + 10) XOR A ! (i + 15) XOR A ! (i + 20)) [0..<5]"

text \<open>\<^verbatim>\<open>tmp[i] = parity[(i + 4) % 5] ^ rotl64(parity[(i + 1) % 5], 1)\<close>.\<close>

definition theta_tmp :: "uint64 list \<Rightarrow> nat \<Rightarrow> uint64 option" where
  "theta_tmp parity i =
    do { r \<leftarrow> rotl64 (parity ! ((i + 1) mod 5)) 1; Some (parity ! ((i + 4) mod 5) XOR r) }"

text \<open>The \<open>\<theta>\<close> block: the parities are taken first, then for each \<open>i\<close> in 0..4
  \<^verbatim>\<open>tmp[i]\<close> is computed and the inner loop
  \<^verbatim>\<open>for (j = 0; j < 25; j += 5) A[i + j] ^= tmp[i]\<close> updates the column in place.\<close>

definition theta_step :: "lanes \<Rightarrow> lanes option" where
  "theta_step A =
    (let parity = parity_of A in
     ofold (\<lambda>A i. do {
         t \<leftarrow> theta_tmp parity i;
         Some (foldl (\<lambda>A j. A[i + j := A ! (i + j) XOR t]) A [0, 5, 10, 15, 20]) })
       A [0..<5])"

text \<open>The \<open>\<rho>\<close> block: \<^verbatim>\<open>for (i = 0; i < 24; i++) A[i + 1] = rotl64(A[i + 1], rho[i])\<close>.\<close>

definition rho_step :: "lanes \<Rightarrow> lanes option" where
  "rho_step A =
    ofold (\<lambda>A i. do { r \<leftarrow> rotl64 (A ! (i + 1)) (rho ! i); Some (A[i + 1 := r]) }) A [0..<24]"

text \<open>The \<open>\<pi>\<close> block: the lane at \<^verbatim>\<open>pi[0]\<close> is saved, each \<^verbatim>\<open>A[pi[i]]\<close> takes
  \<^verbatim>\<open>A[pi[i + 1]]\<close> for \<open>i\<close> in 0..22, and the saved lane goes to \<^verbatim>\<open>A[pi[23]]\<close>.\<close>

definition pi_step :: "lanes \<Rightarrow> lanes" where
  "pi_step A =
    (let tmp0 = A ! (pi ! 0);
         A' = foldl (\<lambda>A i. A[pi ! i := A ! (pi ! (i + 1))]) A [0..<23]
     in A'[pi ! 23 := tmp0])"

text \<open>The \<open>\<chi>\<close> block, row by row (\<open>i\<close> = 0, 5, 10, 15, 20): the five \<^verbatim>\<open>tmp[j]\<close> are
  computed from the row, then XORed into it.\<close>

definition chi_step :: "lanes \<Rightarrow> lanes" where
  "chi_step A =
    foldl (\<lambda>A i.
       let tmp = map (\<lambda>j. NOT (A ! (i + ((j + 1) mod 5))) AND A ! (i + ((j + 2) mod 5))) [0..<5]
       in foldl (\<lambda>A j. A[i + j := A ! (i + j) XOR tmp ! j]) A [0..<5])
      A [0, 5, 10, 15, 20]"

text \<open>The \<open>\<iota>\<close> statement: \<^verbatim>\<open>A[0] ^= RC[i_r]\<close>.\<close>

definition iota_step :: "nat \<Rightarrow> lanes \<Rightarrow> lanes" where
  "iota_step i_r A = A[0 := A ! 0 XOR RC ! i_r]"

definition round_loop :: "lanes \<Rightarrow> nat \<Rightarrow> lanes option" where
  "round_loop A i_r =
    do { A \<leftarrow> theta_step A; A \<leftarrow> rho_step A; Some (iota_step i_r (chi_step (pi_step A))) }"

definition keccakf_1600_loop :: "lanes \<Rightarrow> lanes option" where
  "keccakf_1600_loop A = ofold round_loop A [0..<24]"

subsection \<open>The unrolled version (the default build)\<close>

text \<open>The five \<^verbatim>\<open>parity[..]\<close> and the five \<^verbatim>\<open>tmp[..]\<close> assignments, written out.\<close>

definition parity_unrolled :: "lanes \<Rightarrow> uint64 list" where
  "parity_unrolled A = [
     A ! 0 XOR A ! 5 XOR A ! 10 XOR A ! 15 XOR A ! 20,
     A ! 1 XOR A ! 6 XOR A ! 11 XOR A ! 16 XOR A ! 21,
     A ! 2 XOR A ! 7 XOR A ! 12 XOR A ! 17 XOR A ! 22,
     A ! 3 XOR A ! 8 XOR A ! 13 XOR A ! 18 XOR A ! 23,
     A ! 4 XOR A ! 9 XOR A ! 14 XOR A ! 19 XOR A ! 24]"

definition tmp_unrolled :: "uint64 list \<Rightarrow> uint64 list option" where
  "tmp_unrolled parity = do {
     r1 \<leftarrow> rotl64 (parity ! 1) 1;
     r2 \<leftarrow> rotl64 (parity ! 2) 1;
     r3 \<leftarrow> rotl64 (parity ! 3) 1;
     r4 \<leftarrow> rotl64 (parity ! 4) 1;
     r0 \<leftarrow> rotl64 (parity ! 0) 1;
     Some [parity ! 4 XOR r1, parity ! 0 XOR r2, parity ! 1 XOR r3,
           parity ! 2 XOR r4, parity ! 3 XOR r0] }"

text \<open>The fused pass after \<^verbatim>\<open>A[0] ^= tmp[0]\<close>: each row \<open>(d, s, t, n)\<close> is one
  assignment \<^verbatim>\<open>A[d] = rotl64(A[s] ^ tmp[t], n)\<close>, in program order. The last assignment,
  \<^verbatim>\<open>A[10] = rotl64(start ^ tmp[1], 1)\<close>, reads the saved \<^verbatim>\<open>start = A[1]\<close> and is
  not in the table.\<close>

definition fused_assignments :: "(nat \<times> nat \<times> nat \<times> nat) list" where
  "fused_assignments = [
     ( 1,  6, 1, 44), ( 6,  9, 4, 20), ( 9, 22, 2, 61), (22, 14, 4, 39),
     (14, 20, 0, 18), (20,  2, 2, 62), ( 2, 12, 2, 43), (12, 13, 3, 25),
     (13, 19, 4,  8), (19, 23, 3, 56), (23, 15, 0, 41), (15,  4, 4, 27),
     ( 4, 24, 4, 14), (24, 21, 1,  2), (21,  8, 3, 55), ( 8, 16, 1, 45),
     (16,  5, 0, 36), ( 5,  3, 3, 28), ( 3, 18, 3, 21), (18, 17, 2, 15),
     (17, 11, 1, 10), (11,  7, 2,  6), ( 7, 10, 0,  3)]"

definition fused_assign :: "uint64 list \<Rightarrow> lanes \<Rightarrow> nat \<times> nat \<times> nat \<times> nat \<Rightarrow> lanes option" where
  "fused_assign tmp A r =
    (case r of (d, s, t, n) \<Rightarrow> do { v \<leftarrow> rotl64 (A ! s XOR tmp ! t) n; Some (A[d := v]) })"

definition pi_rho_theta :: "lanes \<Rightarrow> lanes option" where
  "pi_rho_theta A = do {
     tmp \<leftarrow> tmp_unrolled (parity_unrolled A);
     let start = A ! 1;
     let A = A[0 := A ! 0 XOR tmp ! 0];
     A \<leftarrow> ofold (fused_assign tmp) A fused_assignments;
     v \<leftarrow> rotl64 (start XOR tmp ! 1) 1;
     Some (A[10 := v]) }"

text \<open>One \<open>\<chi>\<close> block of the unrolled version, for the row starting at lane \<open>r\<close>
  (\<open>\<chi>_0\<close> is \<open>r = 0\<close>, \<open>\<chi>_1\<close> is \<open>r = 5\<close>, and so on): five \<^verbatim>\<open>tmp\<close>
  assignments, then five XOR assignments.\<close>

definition chi_row :: "nat \<Rightarrow> lanes \<Rightarrow> lanes" where
  "chi_row r A =
    (let tmp0 = NOT (A ! (r + 1)) AND A ! (r + 2);
         tmp1 = NOT (A ! (r + 2)) AND A ! (r + 3);
         tmp2 = NOT (A ! (r + 3)) AND A ! (r + 4);
         tmp3 = NOT (A ! (r + 4)) AND A ! r;
         tmp4 = NOT (A ! r) AND A ! (r + 1);
         A = A[r := A ! r XOR tmp0];
         A = A[r + 1 := A ! (r + 1) XOR tmp1];
         A = A[r + 2 := A ! (r + 2) XOR tmp2];
         A = A[r + 3 := A ! (r + 3) XOR tmp3];
         A = A[r + 4 := A ! (r + 4) XOR tmp4]
     in A)"

definition round_unrolled :: "lanes \<Rightarrow> nat \<Rightarrow> lanes option" where
  "round_unrolled A i_r = do {
     A \<leftarrow> pi_rho_theta A;
     let A = chi_row 0 A;
     let A = chi_row 5 A;
     let A = chi_row 10 A;
     let A = chi_row 15 A;
     let A = chi_row 20 A;
     Some (A[0 := A ! 0 XOR RC ! i_r]) }"

definition keccakf_1600_unrolled :: "lanes \<Rightarrow> lanes option" where
  "keccakf_1600_unrolled A = ofold round_unrolled A [0..<24]"

section \<open>The sponge driver (sha3.c, sha3.h)\<close>

subsection \<open>Build configuration\<close>

text \<open>The source is compiled in one of four ways: \<^verbatim>\<open>__BYTE_ORDER__\<close> selects the
  big-endian or the little-endian code, and \<^verbatim>\<open>SHA3_KECCAKF_LOOP\<close> selects the
  loop version of the permutation.\<close>

record build =
  big_endian :: bool
  keccakf_loop :: bool

definition keccakf_1600 :: "build \<Rightarrow> lanes \<Rightarrow> lanes option" where
  "keccakf_1600 b A = (if keccakf_loop b then keccakf_1600_loop A else keccakf_1600_unrolled A)"

subsection \<open>The context and its two views of the state\<close>

text \<open>\<^verbatim>\<open>struct sha3_ctx\<close>. The three \<^verbatim>\<open>uint8_t\<close> fields are natural numbers below
  256, every assignment to them reduces modulo 256. The union is stored as its 200
  bytes; the lane view \<^verbatim>\<open>u64\<close> reads and writes those bytes in the byte order of the
  host. Field \<^verbatim>\<open>size\<close> is named \<open>digest_size\<close> here.\<close>

record sha3_ctx =
  index :: nat
  rate :: nat
  digest_size :: nat
  u8 :: "uint8 list"

text \<open>Eight bytes as a 64-bit integer, first byte least significant, and back.\<close>

definition le64 :: "uint8 list \<Rightarrow> uint64" where
  "le64 bs = foldr (\<lambda>b w. ucast b OR push_bit 8 w) bs 0"

definition bytes_le64 :: "uint64 \<Rightarrow> uint8 list" where
  "bytes_le64 w = map (\<lambda>j. ucast (drop_bit (8 * j) w)) [0..<8]"

text \<open>A \<^verbatim>\<open>uint64_t\<close> load and store at eight bytes of memory, in host byte order.\<close>

definition load64 :: "build \<Rightarrow> uint8 list \<Rightarrow> uint64" where
  "load64 b bs = (if big_endian b then le64 (rev bs) else le64 bs)"

definition store64 :: "build \<Rightarrow> uint64 \<Rightarrow> uint8 list" where
  "store64 b w = (if big_endian b then rev (bytes_le64 w) else bytes_le64 w)"

text \<open>The member \<^verbatim>\<open>u64\<close> of the union, read from the 200 bytes, and the bytes after
  the 25 lanes have been written through \<^verbatim>\<open>u64\<close>.\<close>

definition u64_view :: "build \<Rightarrow> uint8 list \<Rightarrow> lanes" where
  "u64_view b bytes = map (\<lambda>k. load64 b (take 8 (drop (8 * k) bytes))) [0..<25]"

definition u8_view :: "build \<Rightarrow> lanes \<Rightarrow> uint8 list" where
  "u8_view b A = concat (map (store64 b) A)"

text \<open>The call \<^verbatim>\<open>keccakf_1600(ctx->u64)\<close>.\<close>

definition keccakf_ctx :: "build \<Rightarrow> sha3_ctx \<Rightarrow> sha3_ctx option" where
  "keccakf_ctx b ctx =
    do { A \<leftarrow> keccakf_1600 b (u64_view b (u8 ctx)); Some (ctx\<lparr>u8 := u8_view b A\<rparr>) }"

subsection \<open>Byte swapping and \<^verbatim>\<open>read64le\<close>\<close>

text \<open>\<^verbatim>\<open>x >> 24 | ((x >> 8) & 0xff00) | ((x << 8) & 0xff0000) | x << 24\<close> on a
  \<^verbatim>\<open>uint32_t\<close>.\<close>

definition bswap32 :: "uint32 \<Rightarrow> uint32" where
  "bswap32 x =
    drop_bit 24 x OR ((drop_bit 8 x) AND 0xff00) OR ((push_bit 8 x) AND 0xff0000) OR push_bit 24 x"

text \<open>\<^verbatim>\<open>(bswap32(x) + 0ULL) << 32 | bswap32(x >> 32)\<close>: each argument is truncated to
  32 bits by the call, each result is widened to 64 bits.\<close>

definition bswap64 :: "uint64 \<Rightarrow> uint64" where
  "bswap64 x =
    push_bit 32 (ucast (bswap32 (ucast x)) + 0) OR ucast (bswap32 (ucast (drop_bit 32 x)))"

text \<open>\<^verbatim>\<open>read64le(p)\<close> for the eight bytes at \<open>p\<close>: \<^verbatim>\<open>bswap64(*p)\<close> on a big-endian
  host, \<^verbatim>\<open>*p\<close> on a little-endian one.\<close>

definition read64le :: "build \<Rightarrow> uint8 list \<Rightarrow> uint64" where
  "read64le b bs = (if big_endian b then bswap64 (load64 b bs) else load64 b bs)"

subsection \<open>\<^verbatim>\<open>sha3_init\<close>\<close>

text \<open>The selector is the integer value of an \<^verbatim>\<open>enum sha3_algo\<close>.\<close>

definition sha3_init :: "sha3_ctx \<Rightarrow> int \<Rightarrow> sha3_ctx" where
  "sha3_init ctx algo =
    ctx\<lparr>index := 0,
        rate := nat ((200 - 2 * algo) mod 256),
        digest_size := nat (algo mod 256),
        u8 := replicate 200 0\<rparr>"

subsection \<open>\<^verbatim>\<open>sha3_update_aligned\<close>\<close>

text \<open>One turn of the \<^verbatim>\<open>while (len)\<close> loop on the eight bytes \<open>bs\<close> at \<open>p\<close>:
  \<^verbatim>\<open>ctx->u64[ctx->index / 8] ^= read64le(p++)\<close> (undefined when the lane is outside the
  array), \<^verbatim>\<open>ctx->index += 8\<close>, and the permutation when the index reaches the rate.\<close>

definition absorb_word :: "build \<Rightarrow> sha3_ctx \<Rightarrow> uint8 list \<Rightarrow> sha3_ctx option" where
  "absorb_word b ctx bs =
    (let k = index ctx div 8 in
     if 25 \<le> k then None
     else
       let A = u64_view b (u8 ctx);
           ctx = ctx\<lparr>u8 := u8_view b (A[k := A ! k XOR read64le b bs])\<rparr>;
           ctx = ctx\<lparr>index := (index ctx + 8) mod 256\<rparr>
       in if index ctx = rate ctx then keccakf_ctx b (ctx\<lparr>index := 0\<rparr>) else Some ctx)"

text \<open>The loop runs while \<open>len\<close> is not zero and takes eight bytes each time. With fewer
  than eight bytes left the load reads past the input and \<^verbatim>\<open>len -= 8\<close> wraps around:
  undefined.\<close>

fun sha3_update_aligned :: "build \<Rightarrow> sha3_ctx \<Rightarrow> uint8 list \<Rightarrow> sha3_ctx option" where
  "sha3_update_aligned b ctx buf =
    (if buf = [] then Some ctx
     else if length buf < 8 then None
     else case absorb_word b ctx (take 8 buf) of
            None \<Rightarrow> None
          | Some ctx' \<Rightarrow> sha3_update_aligned b ctx' (drop 8 buf))"

subsection \<open>\<^verbatim>\<open>sha3_update\<close>\<close>

text \<open>One turn of the \<^verbatim>\<open>while (len--)\<close> loop on the input byte \<open>x\<close>. The big-endian
  code XORs it into \<^verbatim>\<open>ctx->u8[(i / 8) + (7 - i % 8)]\<close> where \<open>i\<close> is the index before
  the increment, the little-endian code into \<^verbatim>\<open>ctx->u8[i]\<close> (undefined outside the
  200 bytes).\<close>

definition absorb_byte :: "build \<Rightarrow> sha3_ctx \<Rightarrow> uint8 \<Rightarrow> sha3_ctx option" where
  "absorb_byte b ctx x =
    (let i = index ctx;
         pos = (if big_endian b then (i div 8) + (7 - i mod 8) else i)
     in if 200 \<le> pos then None
        else
          let ctx = ctx\<lparr>index := (i + 1) mod 256, u8 := (u8 ctx)[pos := u8 ctx ! pos XOR x]\<rparr>
          in if index ctx = rate ctx then keccakf_ctx b (ctx\<lparr>index := 0\<rparr>) else Some ctx)"

definition sha3_update_bytes :: "build \<Rightarrow> sha3_ctx \<Rightarrow> uint8 list \<Rightarrow> sha3_ctx option" where
  "sha3_update_bytes b ctx buf = ofold (absorb_byte b) ctx buf"

text \<open>\<^verbatim>\<open>sha3_update(ctx, buf, len)\<close>: \<open>addr\<close> is the address held by \<^verbatim>\<open>buf\<close> and
  \<open>buf\<close> the \<open>len\<close> bytes there. \<^verbatim>\<open>x & 7\<close> is zero exactly when \<open>x mod 8\<close> is.\<close>

definition sha3_update :: "build \<Rightarrow> sha3_ctx \<Rightarrow> nat \<Rightarrow> uint8 list \<Rightarrow> sha3_ctx option" where
  "sha3_update b ctx addr buf =
    (if length buf mod 8 = 0 \<and> index ctx mod 8 = 0 \<and> addr mod 8 = 0
     then sha3_update_aligned b ctx buf
     else sha3_update_bytes b ctx buf)"

subsection \<open>\<^verbatim>\<open>sha3_final\<close>\<close>

text \<open>The result is the context after the call and the bytes written to \<^verbatim>\<open>md\<close>.
  \<^verbatim>\<open>ctx->rate - 1\<close> is computed in \<^verbatim>\<open>int\<close>, so a rate of 0 indexes below the array;
  \<^verbatim>\<open>memcpy\<close> reads \<^verbatim>\<open>ctx->size\<close> bytes of the 200.\<close>

definition sha3_final :: "build \<Rightarrow> sha3_ctx \<Rightarrow> (sha3_ctx \<times> uint8 list) option" where
  "sha3_final b ctx =
    (if 200 \<le> index ctx \<or> rate ctx = 0 \<or> 200 \<le> rate ctx - 1 then None
     else
       let u = (u8 ctx)[index ctx := u8 ctx ! index ctx XOR 0x06];
           u = u[rate ctx - 1 := u ! (rate ctx - 1) XOR 0x80]
       in do {
         ctx \<leftarrow> keccakf_ctx b (ctx\<lparr>u8 := u\<rparr>);
         if 200 < digest_size ctx then None
         else Some (ctx\<lparr>u8 := replicate 200 0\<rparr>, take (digest_size ctx) (u8 ctx)) })"

subsection \<open>The calling sequence\<close>

text \<open>A sequence of \<^verbatim>\<open>sha3_update\<close> calls, one per chunk \<open>(addr, buf)\<close>, and a whole
  hash computation: \<^verbatim>\<open>sha3_init\<close>, the updates, \<^verbatim>\<open>sha3_final\<close>.\<close>

definition sha3_updates :: "build \<Rightarrow> sha3_ctx \<Rightarrow> (nat \<times> uint8 list) list \<Rightarrow> sha3_ctx option" where
  "sha3_updates b ctx chunks = ofold (\<lambda>ctx c. sha3_update b ctx (fst c) (snd c)) ctx chunks"

definition sha3_digest :: "build \<Rightarrow> sha3_ctx \<Rightarrow> int \<Rightarrow> (nat \<times> uint8 list) list \<Rightarrow> uint8 list option" where
  "sha3_digest b ctx0 algo chunks =
    do { ctx \<leftarrow> sha3_updates b (sha3_init ctx0 algo) chunks;
         r \<leftarrow> sha3_final b ctx;
         Some (snd r) }"

text \<open>The contexts the driver works on: one of the four rates with its digest size, a
  fill index below the rate, and 200 bytes of state.\<close>

definition ctx_ok :: "sha3_ctx \<Rightarrow> bool" where
  "ctx_ok ctx \<longleftrightarrow>
     rate ctx \<in> {144, 136, 104, 72} \<and> 2 * digest_size ctx + rate ctx = 200 \<and>
     index ctx < rate ctx \<and> length (u8 ctx) = 200"

section \<open>Functional descriptions of the permutation\<close>

text \<open>Each step of a round as a function from the old state to the new one, lane by lane,
  with lane \<open>(x, y)\<close> at index \<open>x + 5 * y\<close>. These are what the in-place code is proved
  to compute.\<close>

definition column_parity :: "lanes \<Rightarrow> nat \<Rightarrow> uint64" where
  "column_parity A x = A ! x XOR A ! (x + 5) XOR A ! (x + 10) XOR A ! (x + 15) XOR A ! (x + 20)"

definition theta_fun :: "lanes \<Rightarrow> lanes" where
  "theta_fun A =
    map (\<lambda>k. A ! k XOR
           (column_parity A ((k mod 5 + 4) mod 5) XOR
            rotl64_val (column_parity A ((k mod 5 + 1) mod 5)) 1))
      [0..<25]"

definition rho_fun :: "lanes \<Rightarrow> lanes" where
  "rho_fun A = map (\<lambda>k. if k = 0 then A ! 0 else rotl64_val (A ! k) (rho ! (k - 1))) [0..<25]"

definition pi_fun :: "lanes \<Rightarrow> lanes" where
  "pi_fun A = map (\<lambda>k. A ! ((k mod 5 + 3 * (k div 5)) mod 5 + 5 * (k mod 5))) [0..<25]"

definition chi_fun :: "lanes \<Rightarrow> lanes" where
  "chi_fun A =
    map (\<lambda>k. A ! k XOR
           (NOT (A ! (5 * (k div 5) + (k + 1) mod 5)) AND A ! (5 * (k div 5) + (k + 2) mod 5)))
      [0..<25]"

definition round_fun :: "nat \<Rightarrow> lanes \<Rightarrow> lanes" where
  "round_fun i_r A = iota_step i_r (chi_fun (pi_fun (rho_fun (theta_fun A))))"

definition keccakf_fun :: "lanes \<Rightarrow> lanes" where
  "keccakf_fun A = foldl (\<lambda>A i_r. round_fun i_r A) A [0..<24]"

text \<open>The \<open>\<theta>\<close> mapping in the words of the specification: \<open>parity[x]\<close> is the XOR of
  the five lanes \<open>(x, y)\<close> of column \<open>x\<close>, and every lane \<open>(x, y)\<close> is XORed with
  \<open>parity[(x + 4) mod 5] XOR rotateLeft(parity[(x + 1) mod 5], 1)\<close>, the rotation being
  the circular left rotation \<^const>\<open>word_rotl\<close> of the word library.\<close>

definition parity_spec :: "lanes \<Rightarrow> nat \<Rightarrow> uint64" where
  "parity_spec A x = foldl (XOR) 0 (map (\<lambda>y. A ! (x + 5 * y)) [0..<5])"

definition theta_spec :: "lanes \<Rightarrow> lanes" where
  "theta_spec A =
    map (\<lambda>k. let x = k mod 5 in
           A ! k XOR (parity_spec A ((x + 4) mod 5) XOR word_rotl 1 (parity_spec A ((x + 1) mod 5))))
      [0..<25]"

text \<open>The padding of \<^verbatim>\<open>sha3_final\<close> in the words of the specification: the byte at the
  fill index is XORed with \<open>0x06\<close> and the byte at offset \<open>rate - 1\<close> with \<open>0x80\<close>,
  both masks on the same byte when the two offsets are equal; no other byte changes.\<close>

definition pad_spec :: "sha3_ctx \<Rightarrow> uint8 list" where
  "pad_spec ctx =
    map (\<lambda>j. u8 ctx ! j XOR (if j = index ctx then 0x06 else 0)
                        XOR (if j = rate ctx - 1 then 0x80 else 0))
      [0..<200]"

section \<open>Evaluating the permutation on bit lists\<close>

text \<open>To evaluate the permutation on a concrete state inside the logic, a lane is written
  as the list of its bits, least significant first (a missing bit is 0), and the round is
  written once more on such lists, with every lane of the new state given by name. The
  bit-list round is proved equal to \<^const>\<open>round_fun\<close> below; it is a device for
  computing and models no code of its own.\<close>

fun w_of :: "bool list \<Rightarrow> uint64" where
  "w_of [] = 0"
| "w_of (b # bs) = of_bool b OR push_bit 1 (w_of bs)"

definition to_bits :: "uint64 \<Rightarrow> bool list" where
  "to_bits w = map (bit w) [0..<64]"

fun bits_of_num :: "num \<Rightarrow> bool list" where
  "bits_of_num num.One = [True]"
| "bits_of_num (num.Bit0 n) = False # bits_of_num n"
| "bits_of_num (num.Bit1 n) = True # bits_of_num n"

fun xorl :: "bool list \<Rightarrow> bool list \<Rightarrow> bool list" where
  "xorl (True # xs) (True # ys) = False # xorl xs ys"
| "xorl (True # xs) (False # ys) = True # xorl xs ys"
| "xorl (False # xs) (True # ys) = True # xorl xs ys"
| "xorl (False # xs) (False # ys) = False # xorl xs ys"
| "xorl [] ys = ys"
| "xorl xs [] = xs"

text \<open>\<open>andnl xs ys\<close> is \<open>NOT xs AND ys\<close>.\<close>

fun andnl :: "bool list \<Rightarrow> bool list \<Rightarrow> bool list" where
  "andnl (True # xs) (True # ys) = False # andnl xs ys"
| "andnl (True # xs) (False # ys) = False # andnl xs ys"
| "andnl (False # xs) (True # ys) = True # andnl xs ys"
| "andnl (False # xs) (False # ys) = False # andnl xs ys"
| "andnl [] ys = ys"
| "andnl xs [] = []"

definition pad64 :: "bool list \<Rightarrow> bool list" where
  "pad64 s = take 64 (s @ replicate 64 False)"

text \<open>The same padding by recursion along a list \<open>cs\<close> of the wanted length.\<close>

fun pad_to :: "bool list \<Rightarrow> bool list \<Rightarrow> bool list" where
  "pad_to (c # cs) (x # xs) = x # pad_to cs xs"
| "pad_to (c # cs) [] = False # pad_to cs []"
| "pad_to [] xs = []"

definition rotl_bl :: "nat \<Rightarrow> bool list \<Rightarrow> bool list" where
  "rotl_bl n s = drop (64 - n) (pad64 s) @ take (64 - n) (pad64 s)"

fun parity_bl :: "bool list list \<Rightarrow> bool list list" where
  "parity_bl
    [s0, s1, s2, s3, s4, s5, s6, s7, s8, s9, s10, s11, s12, s13, s14, s15, s16, s17,
     s18, s19, s20, s21, s22, s23, s24] =
    [xorl s0 (xorl s5 (xorl s10 (xorl s15 s20))),
     xorl s1 (xorl s6 (xorl s11 (xorl s16 s21))),
     xorl s2 (xorl s7 (xorl s12 (xorl s17 s22))),
     xorl s3 (xorl s8 (xorl s13 (xorl s18 s23))),
     xorl s4 (xorl s9 (xorl s14 (xorl s19 s24)))]"
| "parity_bl _ = []"

fun tmp_bl :: "bool list list \<Rightarrow> bool list list" where
  "tmp_bl [p0, p1, p2, p3, p4] =
    [xorl p4 (rotl_bl 1 p1), xorl p0 (rotl_bl 1 p2), xorl p1 (rotl_bl 1 p3),
     xorl p2 (rotl_bl 1 p4), xorl p3 (rotl_bl 1 p0)]"
| "tmp_bl _ = []"

fun theta_rho_pi_bl :: "bool list list \<Rightarrow> bool list list \<Rightarrow> bool list list" where
  "theta_rho_pi_bl [t0, t1, t2, t3, t4]
    [s0, s1, s2, s3, s4, s5, s6, s7, s8, s9, s10, s11, s12, s13, s14, s15, s16, s17,
     s18, s19, s20, s21, s22, s23, s24] =
    [xorl s0 t0, rotl_bl 44 (xorl s6 t1), rotl_bl 43 (xorl s12 t2),
     rotl_bl 21 (xorl s18 t3), rotl_bl 14 (xorl s24 t4), rotl_bl 28 (xorl s3 t3),
     rotl_bl 20 (xorl s9 t4), rotl_bl 3 (xorl s10 t0), rotl_bl 45 (xorl s16 t1),
     rotl_bl 61 (xorl s22 t2), rotl_bl 1 (xorl s1 t1), rotl_bl 6 (xorl s7 t2),
     rotl_bl 25 (xorl s13 t3), rotl_bl 8 (xorl s19 t4), rotl_bl 18 (xorl s20 t0),
     rotl_bl 27 (xorl s4 t4), rotl_bl 36 (xorl s5 t0), rotl_bl 10 (xorl s11 t1),
     rotl_bl 15 (xorl s17 t2), rotl_bl 56 (xorl s23 t3), rotl_bl 62 (xorl s2 t2),
     rotl_bl 55 (xorl s8 t3), rotl_bl 39 (xorl s14 t4), rotl_bl 41 (xorl s15 t0),
     rotl_bl 2 (xorl s21 t1)]"
| "theta_rho_pi_bl _ _ = []"

fun chi_bl :: "bool list list \<Rightarrow> bool list list" where
  "chi_bl
    [s0, s1, s2, s3, s4, s5, s6, s7, s8, s9, s10, s11, s12, s13, s14, s15, s16, s17,
     s18, s19, s20, s21, s22, s23, s24] =
    [xorl s0 (andnl s1 s2), xorl s1 (andnl s2 s3), xorl s2 (andnl s3 s4),
     xorl s3 (andnl s4 s0), xorl s4 (andnl s0 s1), xorl s5 (andnl s6 s7),
     xorl s6 (andnl s7 s8), xorl s7 (andnl s8 s9), xorl s8 (andnl s9 s5),
     xorl s9 (andnl s5 s6), xorl s10 (andnl s11 s12), xorl s11 (andnl s12 s13),
     xorl s12 (andnl s13 s14), xorl s13 (andnl s14 s10), xorl s14 (andnl s10 s11),
     xorl s15 (andnl s16 s17), xorl s16 (andnl s17 s18), xorl s17 (andnl s18 s19),
     xorl s18 (andnl s19 s15), xorl s19 (andnl s15 s16), xorl s20 (andnl s21 s22),
     xorl s21 (andnl s22 s23), xorl s22 (andnl s23 s24), xorl s23 (andnl s24 s20),
     xorl s24 (andnl s20 s21)]"
| "chi_bl _ = []"

fun iota_bl :: "bool list \<Rightarrow> bool list list \<Rightarrow> bool list list" where
  "iota_bl rc (s # S) = xorl s rc # S"
| "iota_bl rc [] = []"

definition round_bl :: "bool list list \<Rightarrow> bool list \<Rightarrow> bool list list" where
  "round_bl S rc = iota_bl rc (chi_bl (theta_rho_pi_bl (tmp_bl (parity_bl S)) S))"

definition keccakf_bl :: "bool list list \<Rightarrow> bool list list" where
  "keccakf_bl S = foldl round_bl S (map to_bits RC)"

text \<open>The bits of the 24 round constants.\<close>

definition RC_bits :: "bool list list" where
  "RC_bits = [
    [True, False, False, False, False, False, False, False, False, False, False, False,
     False, False, False, False, False, False, False, False, False, False, False, False,
     False, False, False, False, False, False, False, False, False, False, False, False,
     False, False, False, False, False, False, False, False, False, False, False, False,
     False, False, False, False, False, False, False, False, False, False, False, False,
     False, False, False, False],
    [False, True, False, False, False, False, False, True, False, False, False, False,
     False, False, False, True, False, False, False, False, False, False, False, False,
     False, False, False, False, False, False, False, False, False, False, False, False,
     False, False, False, False, False, False, False, False, False, False, False, False,
     False, False, False, False, False, False, False, False, False, False, False, False,
     False, False, False, False],
    [False, True, False, True, False, False, False, True, False, False, False, False,
     False, False, False, True, False, False, False, False, False, False, False, False,
     False, False, False, False, False, False, False, False, False, False, False, False,
     False, False, False, False, False, False, False, False, False, False, False, False,
     False, False, False, False, False, False, False, False, False, False, False, False,
     False, False, False, True],
    [False, False, False, False, False, False, False, False, False, False, False, False,
     False, False, False, True, False, False, False, False, False, False, False, False,
     False, False, False, False, False, False, False, True, False, False, False, False,
     False, False, False, False, False, False, False, False, False, False, False, False,
     False, False, False, False, False, False, False, False, False, False, False, False,
     False, False, False, True],
    [True, True, False, True, False, False, False, True, False, False, False, False, False,
     False, False, True, False, False, False, False, False, False, False, False, False,
     False, False, False, False, False, False, False, False, False, False, False, False,
     False, False, False, False, False, False, False, False, False, False, False, False,
     False, False, False, False, False, False, False, False, False, False, False, False,
     False, False, False],
    [True, False, False, False, False, False, False, False, False, False, False, False,
     False, False, False, False, False, False, False, False, False, False, False, False,
     False, False, False, False, False, False, False, True, False, False, False, False,
     False, False, False, False, False, False, False, False, False, False, False, False,
     False, False, False, False, False, False, False, False, False, False, False, False,
     False, False, False, False],
    [True, False, False, False, False, False, False, True, False, False, False, False,
     False, False, False, True, False, False, False, False, False, False, False, False,
     False, False, False, False, False, False, False, True, False, False, False, False,
     False, False, False, False, False, False, False, False, False, False, False, False,
     False, False, False, False, False, False, False, False, False, False, False, False,
     False, False, False, True],
    [True, False, False, True, False, False, False, False, False, False, False, False,
     False, False, False, True, False, False, False, False, False, False, False, False,
     False, False, False, False, False, False, False, False, False, False, False, False,
     False, False, False, False, False, False, False, False, False, False, False, False,
     False, False, False, False, False, False, False, False, False, False, False, False,
     False, False, False, True],
    [False, True, False, True, False, False, False, True, False, False, False, False,
     False, False, False, False, False, False, False, False, False, False, False, False,
     False, False, False, False, False, False, False, False, False, False, False, False,
     False, False, False, False, False, False, False, False, False, False, False, False,
     False, False, False, False, False, False, False, False, False, False, False, False,
     False, False, False, False],
    [False, False, False, True, False, False, False, True, False, False, False, False,
     False, False, False, False, False, False, False, False, False, False, False, False,
     False, False, False, False, False, False, False, False, False, False, False, False,
     False, False, False, False, False, False, False, False, False, False, False, False,
     False, False, False, False, False, False, False, False, False, False, False, False,
     False, False, False, False],
    [True, False, False, True, False, False, False, False, False, False, False, False,
     False, False, False, True, False, False, False, False, False, False, False, False,
     False, False, False, False, False, False, False, True, False, False, False, False,
     False, False, False, False, False, False, False, False, False, False, False, False,
     False, False, False, False, False, False, False, False, False, False, False, False,
     False, False, False, False],
    [False, True, False, True, False, False, False, False, False, False, False, False,
     False, False, False, False, False, False, False, False, False, False, False, False,
     False, False, False, False, False, False, False, True, False, False, False, False,
     False, False, False, False, False, False, False, False, False, False, False, False,
     False, False, False, False, False, False, False, False, False, False, False, False,
     False, False, False, False],
    [True, True, False, True, False, False, False, True, False, False, False, False, False,
     False, False, True, False, False, False, False, False, False, False, False, False,
     False, False, False, False, False, False, True, False, False, False, False, False,
     False, False, False, False, False, False, False, False, False, False, False, False,
     False, False, False, False, False, False, False, False, False, False, False, False,
     False, False, False],
    [True, True, False, True, False, False, False, True, False, False, False, False, False,
     False, False, False, False, False, False, False, False, False, False, False, False,
     False, False, False, False, False, False, False, False, False, False, False, False,
     False, False, False, False, False, False, False, False, False, False, False, False,
     False, False, False, False, False, False, False, False, False, False, False, False,
     False, False, True],
    [True, False, False, True, False, False, False, True, False, False, False, False,
     False, False, False, True, False, False, False, False, False, False, False, False,
     False, False, False, False, False, False, False, False, False, False, False, False,
     False, False, False, False, False, False, False, False, False, False, False, False,
     False, False, False, False, False, False, False, False, False, False, False, False,
     False, False, False, True],
    [True, True, False, False, False, False, False, False, False, False, False, False,
     False, False, False, True, False, False, False, False, False, False, False, False,
     False, False, False, False, False, False, False, False, False, False, False, False,
     False, False, False, False, False, False, False, False, False, False, False, False,
     False, False, False, False, False, False, False, False, False, False, False, False,
     False, False, False, True],
    [False, True, False, False, False, False, False, False, False, False, False, False,
     False, False, False, True, False, False, False, False, False, False, False, False,
     False, False, False, False, False, False, False, False, False, False, False, False,
     False, False, False, False, False, False, False, False, False, False, False, False,
     False, False, False, False, False, False, False, False, False, False, False, False,
     False, False, False, True],
    [False, False, False, False, False, False, False, True, False, False, False, False,
     False, False, False, False, False, False, False, False, False, False, False, False,
     False, False, False, False, False, False, False, False, False, False, False, False,
     False, False, False, False, False, False, False, False, False, False, False, False,
     False, False, False, False, False, False, False, False, False, False, False, False,
     False, False, False, True],
    [False, True, False, True, False, False, False, False, False, False, False, False,
     False, False, False, True, False, False, False, False, False, False, False, False,
     False, False, False, False, False, False, False, False, False, False, False, False,
     False, False, False, False, False, False, False, False, False, False, False, False,
     False, False, False, False, False, False, False, False, False, False, False, False,
     False, False, False, False],
    [False, True, False, True, False, False, False, False, False, False, False, False,
     False, False, False, False, False, False, False, False, False, False, False, False,
     False, False, False, False, False, False, False, True, False, False, False, False,
     False, False, False, False, False, False, False, False, False, False, False, False,
     False, False, False, False, False, False, False, False, False, False, False, False,
     False, False, False, True],
    [True, False, False, False, False, False, False, True, False, False, False, False,
     False, False, False, True, False, False, False, False, False, False, False, False,
     False, False, False, False, False, False, False, True, False, False, False, False,
     False, False, False, False, False, False, False, False, False, False, False, False,
     False, False, False, False, False, False, False, False, False, False, False, False,
     False, False, False, True],
    [False, False, False, False, False, False, False, True, False, False, False, False,
     False, False, False, True, False, False, False, False, False, False, False, False,
     False, False, False, False, False, False, False, False, False, False, False, False,
     False, False, False, False, False, False, False, False, False, False, False, False,
     False, False, False, False, False, False, False, False, False, False, False, False,
     False, False, False, True],
    [True, False, False, False, False, False, False, False, False, False, False, False,
     False, False, False, False, False, False, False, False, False, False, False, False,
     False, False, False, False, False, False, False, True, False, False, False, False,
     False, False, False, False, False, False, False, False, False, False, False, False,
     False, False, False, False, False, False, False, False, False, False, False, False,
     False, False, False, False],
    [False, False, False, True, False, False, False, False, False, False, False, False,
     False, False, False, True, False, False, False, False, False, False, False, False,
     False, False, False, False, False, False, False, True, False, False, False, False,
     False, False, False, False, False, False, False, False, False, False, False, False,
     False, False, False, False, False, False, False, False, False, False, False, False,
     False, False, False, True]]"

section \<open>Properties of the permutation engine\<close>

subsection \<open>Auxiliary facts\<close>

lemma upt5: "[0..<5] = [0, 1, 2, 3, 4]"
  by (simp add: upt_conv_Cons)

lemma upt8: "[0..<8] = [0, 1, 2, 3, 4, 5, 6, 7]"
  by (simp add: upt_conv_Cons)

lemma upt23:
  "[0..<23] = [0, 1, 2, 3, 4, 5, 6, 7, 8, 9, 10, 11, 12, 13, 14, 15, 16, 17, 18, 19, 20, 21, 22]"
  by (simp add: upt_conv_Cons)

lemma upt24:
  "[0..<24] = [0, 1, 2, 3, 4, 5, 6, 7, 8, 9, 10, 11, 12, 13, 14, 15, 16, 17, 18, 19, 20, 21, 22, 23]"
  by (simp add: upt_conv_Cons)

lemma upt25:
  "[0..<25] =
    [0, 1, 2, 3, 4, 5, 6, 7, 8, 9, 10, 11, 12, 13, 14, 15, 16, 17, 18, 19, 20, 21, 22, 23, 24]"
  by (simp add: upt_conv_Cons)

lemma list25:
  assumes "length (A :: 'a list) = 25"
  shows "A = [A ! 0, A ! 1, A ! 2, A ! 3, A ! 4, A ! 5, A ! 6, A ! 7, A ! 8, A ! 9, A ! 10,
              A ! 11, A ! 12, A ! 13, A ! 14, A ! 15, A ! 16, A ! 17, A ! 18, A ! 19, A ! 20,
              A ! 21, A ! 22, A ! 23, A ! 24]"
proof -
  have "A = map ((!) A) [0..<25]"
    using map_nth [of A] assms by simp
  then show ?thesis
    unfolding upt25 by simp
qed

lemma ofold_Some_foldl:
  assumes step: "\<And>s x. P s \<Longrightarrow> f s x = Some (g s x)"
    and keep: "\<And>s x. P s \<Longrightarrow> P (g s x)"
    and init: "P s"
  shows "ofold f s xs = Some (foldl g s xs) \<and> P (foldl g s xs)"
  using init
proof (induction xs arbitrary: s)
  case Nil
  then show ?case by simp
next
  case (Cons x xs)
  from Cons.prems have "f s x = Some (g s x)" and "P (g s x)"
    by (simp_all add: step keep)
  with Cons.IH [of "g s x"] show ?case by simp
qed

lemma ofold_append:
  "ofold f s (xs @ ys) = (case ofold f s xs of None \<Rightarrow> None | Some s' \<Rightarrow> ofold f s' ys)"
  by (induction xs arbitrary: s) (simp_all split: option.split)

lemma rotl64_Some: "1 \<le> n \<Longrightarrow> n \<le> 63 \<Longrightarrow> rotl64 x n = Some (rotl64_val x n)"
  by (simp add: rotl64_def)

lemma rotl64_defined_iff: "rotl64 x n \<noteq> None \<longleftrightarrow> 1 \<le> n \<and> n \<le> 63"
  by (auto simp: rotl64_def)

subsection \<open>The in-place steps compute the functional descriptions\<close>

lemma theta_explicit:
  "theta_step [a0, a1, a2, a3, a4, a5, a6, a7, a8, a9, a10, a11, a12, a13, a14, a15, a16,
               a17, a18, a19, a20, a21, a22, a23, a24] =
   Some (theta_fun [a0, a1, a2, a3, a4, a5, a6, a7, a8, a9, a10, a11, a12, a13, a14, a15, a16,
                    a17, a18, a19, a20, a21, a22, a23, a24])"
  by (simp add: theta_step_def theta_tmp_def parity_of_def upt5 rotl64_Some Let_def
      theta_fun_def column_parity_def upt25)

lemma rho_explicit:
  "rho_step [a0, a1, a2, a3, a4, a5, a6, a7, a8, a9, a10, a11, a12, a13, a14, a15, a16,
             a17, a18, a19, a20, a21, a22, a23, a24] =
   Some (rho_fun [a0, a1, a2, a3, a4, a5, a6, a7, a8, a9, a10, a11, a12, a13, a14, a15, a16,
                  a17, a18, a19, a20, a21, a22, a23, a24])"
  by (simp add: rho_step_def rho_def upt24 rotl64_Some rho_fun_def upt25)

lemma pi_explicit:
  "pi_step [a0, a1, a2, a3, a4, a5, a6, a7, a8, a9, a10, a11, a12, a13, a14, a15, a16,
            a17, a18, a19, a20, a21, a22, a23, a24] =
   pi_fun [a0, a1, a2, a3, a4, a5, a6, a7, a8, a9, a10, a11, a12, a13, a14, a15, a16,
           a17, a18, a19, a20, a21, a22, a23, a24]"
  by (simp add: pi_step_def pi_def upt23 Let_def pi_fun_def upt25)

lemma chi_explicit:
  "chi_step [a0, a1, a2, a3, a4, a5, a6, a7, a8, a9, a10, a11, a12, a13, a14, a15, a16,
             a17, a18, a19, a20, a21, a22, a23, a24] =
   chi_fun [a0, a1, a2, a3, a4, a5, a6, a7, a8, a9, a10, a11, a12, a13, a14, a15, a16,
            a17, a18, a19, a20, a21, a22, a23, a24]"
  by (simp add: chi_step_def upt5 Let_def chi_fun_def upt25)

lemma fused_explicit:
  "pi_rho_theta [a0, a1, a2, a3, a4, a5, a6, a7, a8, a9, a10, a11, a12, a13, a14, a15, a16,
                 a17, a18, a19, a20, a21, a22, a23, a24] =
   Some (pi_fun (rho_fun (theta_fun [a0, a1, a2, a3, a4, a5, a6, a7, a8, a9, a10, a11, a12,
                 a13, a14, a15, a16, a17, a18, a19, a20, a21, a22, a23, a24])))"
  by (simp add: pi_rho_theta_def tmp_unrolled_def parity_unrolled_def fused_assignments_def
      fused_assign_def rotl64_Some Let_def pi_fun_def rho_fun_def theta_fun_def
      column_parity_def upt25 rho_def)

lemma chi_rows_explicit:
  "chi_row 20 (chi_row 15 (chi_row 10 (chi_row 5 (chi_row 0
     [a0, a1, a2, a3, a4, a5, a6, a7, a8, a9, a10, a11, a12, a13, a14, a15, a16,
      a17, a18, a19, a20, a21, a22, a23, a24])))) =
   chi_fun [a0, a1, a2, a3, a4, a5, a6, a7, a8, a9, a10, a11, a12, a13, a14, a15, a16,
            a17, a18, a19, a20, a21, a22, a23, a24]"
  by (simp add: chi_row_def Let_def chi_fun_def upt25)

lemma theta_step_fun: "length A = 25 \<Longrightarrow> theta_step A = Some (theta_fun A)"
  by (subst (1 2) list25, assumption, rule theta_explicit)

lemma rho_step_fun: "length A = 25 \<Longrightarrow> rho_step A = Some (rho_fun A)"
  by (subst (1 2) list25, assumption, rule rho_explicit)

lemma pi_step_fun: "length A = 25 \<Longrightarrow> pi_step A = pi_fun A"
  by (subst (1 2) list25, assumption, rule pi_explicit)

lemma chi_step_fun: "length A = 25 \<Longrightarrow> chi_step A = chi_fun A"
  by (subst (1 2) list25, assumption, rule chi_explicit)

lemma pi_rho_theta_fun: "length A = 25 \<Longrightarrow> pi_rho_theta A = Some (pi_fun (rho_fun (theta_fun A)))"
  by (subst (1 2) list25, assumption, rule fused_explicit)

lemma chi_rows_fun:
  "length A = 25 \<Longrightarrow> chi_row 20 (chi_row 15 (chi_row 10 (chi_row 5 (chi_row 0 A)))) = chi_fun A"
  by (subst (1 2) list25, assumption, rule chi_rows_explicit)

lemma length_step_funs [simp]:
  "length (theta_fun A) = 25" "length (rho_fun A) = 25" "length (pi_fun A) = 25"
  "length (chi_fun A) = 25" "length (round_fun i A) = 25"
  by (simp_all add: theta_fun_def rho_fun_def pi_fun_def chi_fun_def round_fun_def iota_step_def)

lemma round_loop_fun: "length A = 25 \<Longrightarrow> round_loop A i = Some (round_fun i A)"
  by (simp add: round_loop_def round_fun_def theta_step_fun rho_step_fun pi_step_fun chi_step_fun)

lemma round_unrolled_fun: "length A = 25 \<Longrightarrow> round_unrolled A i = Some (round_fun i A)"
  by (simp add: round_unrolled_def round_fun_def pi_rho_theta_fun chi_rows_fun iota_step_def Let_def)

lemma keccakf_1600_loop_fun:
  assumes "length A = 25"
  shows "keccakf_1600_loop A = Some (keccakf_fun A)"
  unfolding keccakf_1600_loop_def keccakf_fun_def
  using ofold_Some_foldl [where P = "\<lambda>A. length A = 25" and f = round_loop
      and g = "\<lambda>A i. round_fun i A" and s = A and xs = "[0..<24]"] assms
  by (simp add: round_loop_fun)

lemma keccakf_1600_unrolled_fun:
  assumes "length A = 25"
  shows "keccakf_1600_unrolled A = Some (keccakf_fun A)"
  unfolding keccakf_1600_unrolled_def keccakf_fun_def
  using ofold_Some_foldl [where P = "\<lambda>A. length A = 25" and f = round_unrolled
      and g = "\<lambda>A i. round_fun i A" and s = A and xs = "[0..<24]"] assms
  by (simp add: round_unrolled_fun)

lemma length_foldl_round_fun:
  "length A = 25 \<Longrightarrow> length (foldl (\<lambda>A i_r. round_fun i_r A) A is) = 25"
  by (induction "is" arbitrary: A) simp_all

lemma length_keccakf_fun: "length A = 25 \<Longrightarrow> length (keccakf_fun A) = 25"
  unfolding keccakf_fun_def by (rule length_foldl_round_fun)

lemma keccakf_1600_fun: "length A = 25 \<Longrightarrow> keccakf_1600 b A = Some (keccakf_fun A)"
  by (simp add: keccakf_1600_def keccakf_1600_loop_fun keccakf_1600_unrolled_fun)

subsection \<open>The rotation\<close>

lemma bit_uint64_length: "bit (x :: uint64) k \<Longrightarrow> k < 64"
  using bit_imp_le_length [of x k] by simp

lemma bit_rotl64_val:
  assumes "n < 64"
  shows "bit (rotl64_val x n) i \<longleftrightarrow> i < 64 \<and> bit x ((i + (64 - n)) mod 64)"
proof (cases "i < 64")
  case False
  then show ?thesis using bit_uint64_length [of "rotl64_val x n" i] by auto
next
  case i: True
  show ?thesis
  proof (cases "n \<le> i")
    case True
    then have m: "(i + (64 - n)) mod 64 = i - n"
      using assms i by (simp add: mod_if)
    have "\<not> bit x (64 - n + i)"
      using True bit_uint64_length [of x "64 - n + i"] by auto
    then show ?thesis
      using True i m by (simp add: rotl64_val_def bit_or_iff bit_push_bit_iff bit_drop_bit_eq)
  next
    case False
    then have m: "(i + (64 - n)) mod 64 = 64 - n + i"
      using assms i by simp
    show ?thesis
      using False i m
      by (simp add: rotl64_val_def bit_or_iff bit_push_bit_iff bit_drop_bit_eq add.commute)
  qed
qed

lemma rotl64_val_word_rotl: "n < 64 \<Longrightarrow> rotl64_val x n = word_rotl n x"
  by (rule bit_word_eqI) (simp add: bit_rotl64_val bit_word_rotl_iff)

lemma parity_spec_eq: "parity_spec A x = column_parity A x"
  by (simp add: parity_spec_def column_parity_def upt5 ac_simps)

lemma theta_fun_spec: "theta_fun A = theta_spec A"
  by (simp add: theta_fun_def theta_spec_def parity_spec_eq rotl64_val_word_rotl Let_def)

section \<open>Properties of the sponge driver\<close>

subsection \<open>The two views and the permutation call\<close>

lemma length_bytes_le64 [simp]: "length (bytes_le64 w) = 8"
  by (simp add: bytes_le64_def)

lemma length_store64 [simp]: "length (store64 b w) = 8"
  by (simp add: store64_def)

lemma length_u8_view [simp]: "length (u8_view b A) = 8 * length A"
  by (induction A) (simp_all add: u8_view_def)

lemma length_u64_view [simp]: "length (u64_view b u) = 25"
  by (simp add: u64_view_def)

lemma keccakf_ctx_fun:
  "keccakf_ctx b ctx = Some (ctx\<lparr>u8 := u8_view b (keccakf_fun (u64_view b (u8 ctx)))\<rparr>)"
  by (simp add: keccakf_ctx_def keccakf_1600_fun)

lemma length_keccakf_u64_view [simp]: "length (keccakf_fun (u64_view b u)) = 25"
  by (simp add: length_keccakf_fun)

lemma length_u8_keccakf [simp]: "length (u8_view b (keccakf_fun (u64_view b u))) = 200"
  by (simp add: length_keccakf_fun)

lemma pad_spec_eq:
  assumes "length (u8 ctx) = 200" "index ctx < 200" "rate ctx - 1 < 200"
  shows "((u8 ctx)[index ctx := u8 ctx ! index ctx XOR 0x06])
           [rate ctx - 1 := ((u8 ctx)[index ctx := u8 ctx ! index ctx XOR 0x06]) ! (rate ctx - 1) XOR 0x80]
         = pad_spec ctx"
  using assms by (auto simp: pad_spec_def list_eq_iff_nth_eq nth_list_update xor.assoc)

lemma ctx_ok_bounds:
  assumes "ctx_ok ctx"
  shows "index ctx < 200" "rate ctx - 1 < 200" "rate ctx \<noteq> 0" "digest_size ctx \<le> 200"
    "length (u8 ctx) = 200" "digest_size ctx \<in> {28, 32, 48, 64}" "index ctx < rate ctx"
  using assms by (auto simp: ctx_ok_def)

lemma sha3_final_result:
  assumes "ctx_ok ctx"
  shows "sha3_final b ctx =
    Some (ctx\<lparr>u8 := replicate 200 0\<rparr>,
          take (digest_size ctx) (u8_view b (keccakf_fun (u64_view b (pad_spec ctx)))))"
  using ctx_ok_bounds [OF assms] pad_spec_eq [of ctx]
  by (simp add: sha3_final_def keccakf_ctx_fun Let_def)

subsection \<open>The update functions are defined and keep the context well formed\<close>

lemma ctx_ok_rate: "ctx_ok ctx \<Longrightarrow> rate ctx mod 8 = 0 \<and> rate ctx \<le> 144 \<and> 0 < rate ctx"
  by (auto simp: ctx_ok_def)

lemma ctx_ok_keccakf:
  "ctx_ok (ctx\<lparr>index := i, u8 := ys\<rparr>) \<Longrightarrow>
   ctx_ok (ctx\<lparr>index := i, u8 := u8_view b (keccakf_fun (u64_view b u))\<rparr>)"
  by (simp add: ctx_ok_def)

lemma absorb_byte_ok:
  assumes "ctx_ok ctx"
  shows "\<exists>ctx'. absorb_byte b ctx x = Some ctx' \<and> ctx_ok ctx' \<and> rate ctx' = rate ctx
    \<and> digest_size ctx' = digest_size ctx \<and> index ctx' = (index ctx + 1) mod rate ctx"
proof -
  have i: "index ctx < rate ctx" "rate ctx \<le> 144" "length (u8 ctx) = 200"
    using assms by (auto simp: ctx_ok_def)
  then have pos: "index ctx div 8 + (7 - index ctx mod 8) < 200" "index ctx < 200"
    by auto
  have m: "(index ctx + 1) mod 256 = index ctx + 1"
    using i by simp
  show ?thesis
  proof (cases "index ctx + 1 = rate ctx")
    case True
    then show ?thesis
      using assms pos m i
      by (auto simp: absorb_byte_def Let_def keccakf_ctx_fun ctx_ok_def)
  next
    case False
    then have "(index ctx + 1) mod rate ctx = index ctx + 1"
      using i by simp
    then show ?thesis
      using assms pos m i False
      by (auto simp: absorb_byte_def Let_def ctx_ok_def)
  qed
qed

lemma sha3_update_bytes_ok:
  assumes "ctx_ok ctx"
  shows "\<exists>ctx'. sha3_update_bytes b ctx buf = Some ctx' \<and> ctx_ok ctx' \<and> rate ctx' = rate ctx
    \<and> digest_size ctx' = digest_size ctx
    \<and> index ctx' = (index ctx + length buf) mod rate ctx"
  using assms
proof (induction buf arbitrary: ctx)
  case Nil
  then show ?case by (simp add: sha3_update_bytes_def ctx_ok_def)
next
  case (Cons x xs)
  obtain c where c: "absorb_byte b ctx x = Some c" "ctx_ok c" "rate c = rate ctx"
    "digest_size c = digest_size ctx" "index c = (index ctx + 1) mod rate ctx"
    using absorb_byte_ok [OF Cons.prems] by blast
  obtain c' where c': "sha3_update_bytes b c xs = Some c'" "ctx_ok c'" "rate c' = rate c"
    "digest_size c' = digest_size c" "index c' = (index c + length xs) mod rate c"
    using Cons.IH [OF c(2)] by blast
  have "index c' = (index ctx + length (x # xs)) mod rate ctx"
    using c' c by (simp add: mod_add_left_eq add.assoc)
  then show ?case
    using c c' by (simp add: sha3_update_bytes_def)
qed

section \<open>Correctness of the bit-list evaluation\<close>

lemma w_of_Cons: "w_of (b # bs) = of_bool b OR 2 * w_of bs"
  by (simp add: mult.commute)

lemma bit_w_of: "bit (w_of s) i \<longleftrightarrow> i < 64 \<and> i < length s \<and> s ! i"
proof (induction s arbitrary: i)
  case Nil
  then show ?case by simp
next
  case (Cons b bs)
  show ?case
  proof (cases i)
    case 0
    then show ?thesis
      unfolding w_of_Cons by (simp add: bit_or_iff bit_double_iff bit_of_bool_iff)
  next
    case (Suc j)
    then show ?thesis using Cons.IH [of j]
      unfolding w_of_Cons by (auto simp: bit_or_iff bit_double_iff bit_of_bool_iff)
  qed
qed

lemma nth_xorl:
  "(i < length (xorl a b) \<and> xorl a b ! i) \<longleftrightarrow> ((i < length a \<and> a ! i) \<noteq> (i < length b \<and> b ! i))"
  by (induction a b arbitrary: i rule: xorl.induct) (auto simp: nth_Cons split: nat.splits)

lemma w_of_xorl [simp]: "w_of (xorl a b) = w_of a XOR w_of b"
  by (rule bit_word_eqI) (auto simp: bit_xor_iff bit_w_of nth_xorl)

lemma nth_andnl:
  "(i < length (andnl a b) \<and> andnl a b ! i) \<longleftrightarrow> (\<not> (i < length a \<and> a ! i) \<and> (i < length b \<and> b ! i))"
  by (induction a b arbitrary: i rule: andnl.induct) (auto simp: nth_Cons split: nat.splits)

lemma w_of_andnl [simp]: "w_of (andnl a b) = NOT (w_of a) AND w_of b"
  by (rule bit_word_eqI) (auto simp: bit_and_iff bit_not_iff bit_w_of nth_andnl)

lemma length_pad64 [simp]: "length (pad64 s) = 64"
  by (simp add: pad64_def)

lemma nth_pad64: "i < 64 \<Longrightarrow> pad64 s ! i \<longleftrightarrow> i < length s \<and> s ! i"
  by (simp add: pad64_def nth_append)

lemma w_of_pad64 [simp]: "w_of (pad64 s) = w_of s"
  by (rule bit_word_eqI) (auto simp: bit_w_of nth_pad64)

lemma length_rotl_bl [simp]: "length (rotl_bl n s) = 64"
  by (simp add: rotl_bl_def)

lemma w_of_rotl_bl [simp]:
  assumes "n < 64"
  shows "w_of (rotl_bl n s) = rotl64_val (w_of s) n"
proof (rule bit_word_eqI)
  fix i :: nat
  assume "i < LENGTH(64)"
  then have i: "i < 64" by simp
  show "bit (w_of (rotl_bl n s)) i \<longleftrightarrow> bit (rotl64_val (w_of s) n) i"
  proof (cases "i < n")
    case True
    then have "(i + (64 - n)) mod 64 = 64 - n + i" using assms i by simp
    moreover have "rotl_bl n s ! i = pad64 s ! (64 - n + i)"
      using True assms i by (simp add: rotl_bl_def nth_append)
    ultimately show ?thesis
      using assms i True by (auto simp: bit_rotl64_val bit_w_of nth_pad64)
  next
    case False
    then have "(i + (64 - n)) mod 64 = i - n" using assms i by (simp add: mod_if)
    moreover have "rotl_bl n s ! i = pad64 s ! (i - n)"
      using False assms i by (simp add: rotl_bl_def nth_append)
    ultimately show ?thesis
      using assms i False by (auto simp: bit_rotl64_val bit_w_of nth_pad64)
  qed
qed

lemma length_to_bits [simp]: "length (to_bits w) = 64"
  by (simp add: to_bits_def)

lemma w_of_to_bits [simp]: "w_of (to_bits w) = w"
  by (rule bit_word_eqI) (auto simp: bit_w_of to_bits_def)

lemma to_bits_w_of: "to_bits (w_of s) = pad64 s"
  by (rule nth_equalityI) (auto simp: to_bits_def bit_w_of nth_pad64)

lemma w_of_bits_of_num: "w_of (bits_of_num n) = numeral n"
proof (induction n)
  case One
  show ?case unfolding bits_of_num.simps w_of_Cons by simp
next
  case (Bit0 n)
  have "w_of (bits_of_num (num.Bit0 n)) = 2 * w_of (bits_of_num n)"
    unfolding bits_of_num.simps w_of_Cons by simp
  also have "\<dots> = numeral (num.Bit0 n)"
    unfolding Bit0.IH by (simp only: mult_2 numeral_Bit0 [of n])
  finally show ?case .
next
  case (Bit1 n)
  have "w_of (bits_of_num (num.Bit1 n)) = 1 OR 2 * w_of (bits_of_num n)"
    unfolding bits_of_num.simps w_of_Cons by simp
  also have "\<dots> = 2 * w_of (bits_of_num n) + 1"
    by (simp only: one_or_eq) simp
  also have "\<dots> = numeral (num.Bit1 n)"
    unfolding Bit1.IH by (simp only: mult_2 numeral_Bit1 [of n])
  finally show ?case .
qed

lemma to_bits_numeral: "to_bits (numeral n) = pad64 (bits_of_num n)"
  using to_bits_w_of [of "bits_of_num n"] by (simp only: w_of_bits_of_num)

lemma to_bits_0: "to_bits 0 = replicate 64 False"
  by (rule nth_equalityI) (simp_all add: to_bits_def)

lemma round_bl_explicit:
  assumes "w_of rc = RC ! i"
  shows "map w_of (round_bl
      [s0, s1, s2, s3, s4, s5, s6, s7, s8, s9, s10, s11, s12, s13, s14, s15, s16, s17, s18,
       s19, s20, s21, s22, s23, s24] rc) =
    round_fun i
      [w_of s0, w_of s1, w_of s2, w_of s3, w_of s4, w_of s5, w_of s6, w_of s7, w_of s8,
       w_of s9, w_of s10, w_of s11, w_of s12, w_of s13, w_of s14, w_of s15, w_of s16,
       w_of s17, w_of s18, w_of s19, w_of s20, w_of s21, w_of s22, w_of s23, w_of s24]"
  using assms
  by (simp add: round_bl_def round_fun_def iota_step_def chi_fun_def pi_fun_def rho_fun_def
      theta_fun_def column_parity_def upt25 rho_def)


lemma round_bl_hom:
  assumes "length S = 25" "w_of rc = RC ! i"
  shows "map w_of (round_bl S rc) = round_fun i (map w_of S)"
  by (subst (1 2) list25 [OF assms(1)]) (simp only: list.map round_bl_explicit [OF assms(2)])


lemma length_round_bl: "length S = 25 \<Longrightarrow> length (round_bl S rc) = 25"
  by (subst list25, assumption) (simp add: round_bl_def)

lemma foldl_round_bl_hom:
  assumes "length S = 25" "\<forall>i \<in> set is. i < 24"
  shows "map w_of (foldl round_bl S (map (\<lambda>i. to_bits (RC ! i)) is)) =
    foldl (\<lambda>A i_r. round_fun i_r A) (map w_of S) is"
  using assms
proof (induction "is" arbitrary: S)
  case Nil
  then show ?case by simp
next
  case (Cons i "is")
  have "map w_of (round_bl S (to_bits (RC ! i))) = round_fun i (map w_of S)"
    using Cons.prems by (simp add: round_bl_hom)
  moreover have "length (round_bl S (to_bits (RC ! i))) = 25"
    using Cons.prems by (simp add: length_round_bl)
  ultimately show ?case
    using Cons.IH [of "round_bl S (to_bits (RC ! i))"] Cons.prems by simp
qed

lemma keccakf_bl_hom:
  assumes "length S = 25"
  shows "keccakf_fun (map w_of S) = map w_of (keccakf_bl S)"
proof -
  have "map to_bits RC = map (\<lambda>i. to_bits (RC ! i)) [0..<24]"
    using map_nth [of RC] by (simp add: RC_def upt24)
  then show ?thesis
    using foldl_round_bl_hom [OF assms, of "[0..<24]"]
    by (simp add: keccakf_fun_def keccakf_bl_def)
qed

lemma keccakf_fun_bits:
  assumes "length A = 25"
  shows "keccakf_fun A = map w_of (keccakf_bl (map to_bits A))"
  using keccakf_bl_hom [of "map to_bits A"] assms by (simp add: comp_def)

section \<open>Rules for evaluating on bit lists\<close>

lemma rotl_bl_explicit:
  "rotl_bl 1
    [b0, b1, b2, b3, b4, b5, b6, b7, b8, b9, b10, b11, b12, b13, b14, b15, b16, b17, b18,
     b19, b20, b21, b22, b23, b24, b25, b26, b27, b28, b29, b30, b31, b32, b33, b34, b35,
     b36, b37, b38, b39, b40, b41, b42, b43, b44, b45, b46, b47, b48, b49, b50, b51, b52,
     b53, b54, b55, b56, b57, b58, b59, b60, b61, b62, b63] =
    [b63, b0, b1, b2, b3, b4, b5, b6, b7, b8, b9, b10, b11, b12, b13, b14, b15, b16, b17,
     b18, b19, b20, b21, b22, b23, b24, b25, b26, b27, b28, b29, b30, b31, b32, b33, b34,
     b35, b36, b37, b38, b39, b40, b41, b42, b43, b44, b45, b46, b47, b48, b49, b50, b51,
     b52, b53, b54, b55, b56, b57, b58, b59, b60, b61, b62]"
  "rotl_bl 2
    [b0, b1, b2, b3, b4, b5, b6, b7, b8, b9, b10, b11, b12, b13, b14, b15, b16, b17, b18,
     b19, b20, b21, b22, b23, b24, b25, b26, b27, b28, b29, b30, b31, b32, b33, b34, b35,
     b36, b37, b38, b39, b40, b41, b42, b43, b44, b45, b46, b47, b48, b49, b50, b51, b52,
     b53, b54, b55, b56, b57, b58, b59, b60, b61, b62, b63] =
    [b62, b63, b0, b1, b2, b3, b4, b5, b6, b7, b8, b9, b10, b11, b12, b13, b14, b15, b16,
     b17, b18, b19, b20, b21, b22, b23, b24, b25, b26, b27, b28, b29, b30, b31, b32, b33,
     b34, b35, b36, b37, b38, b39, b40, b41, b42, b43, b44, b45, b46, b47, b48, b49, b50,
     b51, b52, b53, b54, b55, b56, b57, b58, b59, b60, b61]"
  "rotl_bl 3
    [b0, b1, b2, b3, b4, b5, b6, b7, b8, b9, b10, b11, b12, b13, b14, b15, b16, b17, b18,
     b19, b20, b21, b22, b23, b24, b25, b26, b27, b28, b29, b30, b31, b32, b33, b34, b35,
     b36, b37, b38, b39, b40, b41, b42, b43, b44, b45, b46, b47, b48, b49, b50, b51, b52,
     b53, b54, b55, b56, b57, b58, b59, b60, b61, b62, b63] =
    [b61, b62, b63, b0, b1, b2, b3, b4, b5, b6, b7, b8, b9, b10, b11, b12, b13, b14, b15,
     b16, b17, b18, b19, b20, b21, b22, b23, b24, b25, b26, b27, b28, b29, b30, b31, b32,
     b33, b34, b35, b36, b37, b38, b39, b40, b41, b42, b43, b44, b45, b46, b47, b48, b49,
     b50, b51, b52, b53, b54, b55, b56, b57, b58, b59, b60]"
  "rotl_bl 6
    [b0, b1, b2, b3, b4, b5, b6, b7, b8, b9, b10, b11, b12, b13, b14, b15, b16, b17, b18,
     b19, b20, b21, b22, b23, b24, b25, b26, b27, b28, b29, b30, b31, b32, b33, b34, b35,
     b36, b37, b38, b39, b40, b41, b42, b43, b44, b45, b46, b47, b48, b49, b50, b51, b52,
     b53, b54, b55, b56, b57, b58, b59, b60, b61, b62, b63] =
    [b58, b59, b60, b61, b62, b63, b0, b1, b2, b3, b4, b5, b6, b7, b8, b9, b10, b11, b12,
     b13, b14, b15, b16, b17, b18, b19, b20, b21, b22, b23, b24, b25, b26, b27, b28, b29,
     b30, b31, b32, b33, b34, b35, b36, b37, b38, b39, b40, b41, b42, b43, b44, b45, b46,
     b47, b48, b49, b50, b51, b52, b53, b54, b55, b56, b57]"
  "rotl_bl 8
    [b0, b1, b2, b3, b4, b5, b6, b7, b8, b9, b10, b11, b12, b13, b14, b15, b16, b17, b18,
     b19, b20, b21, b22, b23, b24, b25, b26, b27, b28, b29, b30, b31, b32, b33, b34, b35,
     b36, b37, b38, b39, b40, b41, b42, b43, b44, b45, b46, b47, b48, b49, b50, b51, b52,
     b53, b54, b55, b56, b57, b58, b59, b60, b61, b62, b63] =
    [b56, b57, b58, b59, b60, b61, b62, b63, b0, b1, b2, b3, b4, b5, b6, b7, b8, b9, b10,
     b11, b12, b13, b14, b15, b16, b17, b18, b19, b20, b21, b22, b23, b24, b25, b26, b27,
     b28, b29, b30, b31, b32, b33, b34, b35, b36, b37, b38, b39, b40, b41, b42, b43, b44,
     b45, b46, b47, b48, b49, b50, b51, b52, b53, b54, b55]"
  "rotl_bl 10
    [b0, b1, b2, b3, b4, b5, b6, b7, b8, b9, b10, b11, b12, b13, b14, b15, b16, b17, b18,
     b19, b20, b21, b22, b23, b24, b25, b26, b27, b28, b29, b30, b31, b32, b33, b34, b35,
     b36, b37, b38, b39, b40, b41, b42, b43, b44, b45, b46, b47, b48, b49, b50, b51, b52,
     b53, b54, b55, b56, b57, b58, b59, b60, b61, b62, b63] =
    [b54, b55, b56, b57, b58, b59, b60, b61, b62, b63, b0, b1, b2, b3, b4, b5, b6, b7, b8,
     b9, b10, b11, b12, b13, b14, b15, b16, b17, b18, b19, b20, b21, b22, b23, b24, b25,
     b26, b27, b28, b29, b30, b31, b32, b33, b34, b35, b36, b37, b38, b39, b40, b41, b42,
     b43, b44, b45, b46, b47, b48, b49, b50, b51, b52, b53]"
  "rotl_bl 14
    [b0, b1, b2, b3, b4, b5, b6, b7, b8, b9, b10, b11, b12, b13, b14, b15, b16, b17, b18,
     b19, b20, b21, b22, b23, b24, b25, b26, b27, b28, b29, b30, b31, b32, b33, b34, b35,
     b36, b37, b38, b39, b40, b41, b42, b43, b44, b45, b46, b47, b48, b49, b50, b51, b52,
     b53, b54, b55, b56, b57, b58, b59, b60, b61, b62, b63] =
    [b50, b51, b52, b53, b54, b55, b56, b57, b58, b59, b60, b61, b62, b63, b0, b1, b2, b3,
     b4, b5, b6, b7, b8, b9, b10, b11, b12, b13, b14, b15, b16, b17, b18, b19, b20, b21,
     b22, b23, b24, b25, b26, b27, b28, b29, b30, b31, b32, b33, b34, b35, b36, b37, b38,
     b39, b40, b41, b42, b43, b44, b45, b46, b47, b48, b49]"
  "rotl_bl 15
    [b0, b1, b2, b3, b4, b5, b6, b7, b8, b9, b10, b11, b12, b13, b14, b15, b16, b17, b18,
     b19, b20, b21, b22, b23, b24, b25, b26, b27, b28, b29, b30, b31, b32, b33, b34, b35,
     b36, b37, b38, b39, b40, b41, b42, b43, b44, b45, b46, b47, b48, b49, b50, b51, b52,
     b53, b54, b55, b56, b57, b58, b59, b60, b61, b62, b63] =
    [b49, b50, b51, b52, b53, b54, b55, b56, b57, b58, b59, b60, b61, b62, b63, b0, b1, b2,
     b3, b4, b5, b6, b7, b8, b9, b10, b11, b12, b13, b14, b15, b16, b17, b18, b19, b20,
     b21, b22, b23, b24, b25, b26, b27, b28, b29, b30, b31, b32, b33, b34, b35, b36, b37,
     b38, b39, b40, b41, b42, b43, b44, b45, b46, b47, b48]"
  "rotl_bl 18
    [b0, b1, b2, b3, b4, b5, b6, b7, b8, b9, b10, b11, b12, b13, b14, b15, b16, b17, b18,
     b19, b20, b21, b22, b23, b24, b25, b26, b27, b28, b29, b30, b31, b32, b33, b34, b35,
     b36, b37, b38, b39, b40, b41, b42, b43, b44, b45, b46, b47, b48, b49, b50, b51, b52,
     b53, b54, b55, b56, b57, b58, b59, b60, b61, b62, b63] =
    [b46, b47, b48, b49, b50, b51, b52, b53, b54, b55, b56, b57, b58, b59, b60, b61, b62,
     b63, b0, b1, b2, b3, b4, b5, b6, b7, b8, b9, b10, b11, b12, b13, b14, b15, b16, b17,
     b18, b19, b20, b21, b22, b23, b24, b25, b26, b27, b28, b29, b30, b31, b32, b33, b34,
     b35, b36, b37, b38, b39, b40, b41, b42, b43, b44, b45]"
  "rotl_bl 20
    [b0, b1, b2, b3, b4, b5, b6, b7, b8, b9, b10, b11, b12, b13, b14, b15, b16, b17, b18,
     b19, b20, b21, b22, b23, b24, b25, b26, b27, b28, b29, b30, b31, b32, b33, b34, b35,
     b36, b37, b38, b39, b40, b41, b42, b43, b44, b45, b46, b47, b48, b49, b50, b51, b52,
     b53, b54, b55, b56, b57, b58, b59, b60, b61, b62, b63] =
    [b44, b45, b46, b47, b48, b49, b50, b51, b52, b53, b54, b55, b56, b57, b58, b59, b60,
     b61, b62, b63, b0, b1, b2, b3, b4, b5, b6, b7, b8, b9, b10, b11, b12, b13, b14, b15,
     b16, b17, b18, b19, b20, b21, b22, b23, b24, b25, b26, b27, b28, b29, b30, b31, b32,
     b33, b34, b35, b36, b37, b38, b39, b40, b41, b42, b43]"
  "rotl_bl 21
    [b0, b1, b2, b3, b4, b5, b6, b7, b8, b9, b10, b11, b12, b13, b14, b15, b16, b17, b18,
     b19, b20, b21, b22, b23, b24, b25, b26, b27, b28, b29, b30, b31, b32, b33, b34, b35,
     b36, b37, b38, b39, b40, b41, b42, b43, b44, b45, b46, b47, b48, b49, b50, b51, b52,
     b53, b54, b55, b56, b57, b58, b59, b60, b61, b62, b63] =
    [b43, b44, b45, b46, b47, b48, b49, b50, b51, b52, b53, b54, b55, b56, b57, b58, b59,
     b60, b61, b62, b63, b0, b1, b2, b3, b4, b5, b6, b7, b8, b9, b10, b11, b12, b13, b14,
     b15, b16, b17, b18, b19, b20, b21, b22, b23, b24, b25, b26, b27, b28, b29, b30, b31,
     b32, b33, b34, b35, b36, b37, b38, b39, b40, b41, b42]"
  "rotl_bl 25
    [b0, b1, b2, b3, b4, b5, b6, b7, b8, b9, b10, b11, b12, b13, b14, b15, b16, b17, b18,
     b19, b20, b21, b22, b23, b24, b25, b26, b27, b28, b29, b30, b31, b32, b33, b34, b35,
     b36, b37, b38, b39, b40, b41, b42, b43, b44, b45, b46, b47, b48, b49, b50, b51, b52,
     b53, b54, b55, b56, b57, b58, b59, b60, b61, b62, b63] =
    [b39, b40, b41, b42, b43, b44, b45, b46, b47, b48, b49, b50, b51, b52, b53, b54, b55,
     b56, b57, b58, b59, b60, b61, b62, b63, b0, b1, b2, b3, b4, b5, b6, b7, b8, b9, b10,
     b11, b12, b13, b14, b15, b16, b17, b18, b19, b20, b21, b22, b23, b24, b25, b26, b27,
     b28, b29, b30, b31, b32, b33, b34, b35, b36, b37, b38]"
  "rotl_bl 27
    [b0, b1, b2, b3, b4, b5, b6, b7, b8, b9, b10, b11, b12, b13, b14, b15, b16, b17, b18,
     b19, b20, b21, b22, b23, b24, b25, b26, b27, b28, b29, b30, b31, b32, b33, b34, b35,
     b36, b37, b38, b39, b40, b41, b42, b43, b44, b45, b46, b47, b48, b49, b50, b51, b52,
     b53, b54, b55, b56, b57, b58, b59, b60, b61, b62, b63] =
    [b37, b38, b39, b40, b41, b42, b43, b44, b45, b46, b47, b48, b49, b50, b51, b52, b53,
     b54, b55, b56, b57, b58, b59, b60, b61, b62, b63, b0, b1, b2, b3, b4, b5, b6, b7, b8,
     b9, b10, b11, b12, b13, b14, b15, b16, b17, b18, b19, b20, b21, b22, b23, b24, b25,
     b26, b27, b28, b29, b30, b31, b32, b33, b34, b35, b36]"
  "rotl_bl 28
    [b0, b1, b2, b3, b4, b5, b6, b7, b8, b9, b10, b11, b12, b13, b14, b15, b16, b17, b18,
     b19, b20, b21, b22, b23, b24, b25, b26, b27, b28, b29, b30, b31, b32, b33, b34, b35,
     b36, b37, b38, b39, b40, b41, b42, b43, b44, b45, b46, b47, b48, b49, b50, b51, b52,
     b53, b54, b55, b56, b57, b58, b59, b60, b61, b62, b63] =
    [b36, b37, b38, b39, b40, b41, b42, b43, b44, b45, b46, b47, b48, b49, b50, b51, b52,
     b53, b54, b55, b56, b57, b58, b59, b60, b61, b62, b63, b0, b1, b2, b3, b4, b5, b6, b7,
     b8, b9, b10, b11, b12, b13, b14, b15, b16, b17, b18, b19, b20, b21, b22, b23, b24,
     b25, b26, b27, b28, b29, b30, b31, b32, b33, b34, b35]"
  "rotl_bl 36
    [b0, b1, b2, b3, b4, b5, b6, b7, b8, b9, b10, b11, b12, b13, b14, b15, b16, b17, b18,
     b19, b20, b21, b22, b23, b24, b25, b26, b27, b28, b29, b30, b31, b32, b33, b34, b35,
     b36, b37, b38, b39, b40, b41, b42, b43, b44, b45, b46, b47, b48, b49, b50, b51, b52,
     b53, b54, b55, b56, b57, b58, b59, b60, b61, b62, b63] =
    [b28, b29, b30, b31, b32, b33, b34, b35, b36, b37, b38, b39, b40, b41, b42, b43, b44,
     b45, b46, b47, b48, b49, b50, b51, b52, b53, b54, b55, b56, b57, b58, b59, b60, b61,
     b62, b63, b0, b1, b2, b3, b4, b5, b6, b7, b8, b9, b10, b11, b12, b13, b14, b15, b16,
     b17, b18, b19, b20, b21, b22, b23, b24, b25, b26, b27]"
  "rotl_bl 39
    [b0, b1, b2, b3, b4, b5, b6, b7, b8, b9, b10, b11, b12, b13, b14, b15, b16, b17, b18,
     b19, b20, b21, b22, b23, b24, b25, b26, b27, b28, b29, b30, b31, b32, b33, b34, b35,
     b36, b37, b38, b39, b40, b41, b42, b43, b44, b45, b46, b47, b48, b49, b50, b51, b52,
     b53, b54, b55, b56, b57, b58, b59, b60, b61, b62, b63] =
    [b25, b26, b27, b28, b29, b30, b31, b32, b33, b34, b35, b36, b37, b38, b39, b40, b41,
     b42, b43, b44, b45, b46, b47, b48, b49, b50, b51, b52, b53, b54, b55, b56, b57, b58,
     b59, b60, b61, b62, b63, b0, b1, b2, b3, b4, b5, b6, b7, b8, b9, b10, b11, b12, b13,
     b14, b15, b16, b17, b18, b19, b20, b21, b22, b23, b24]"
  "rotl_bl 41
    [b0, b1, b2, b3, b4, b5, b6, b7, b8, b9, b10, b11, b12, b13, b14, b15, b16, b17, b18,
     b19, b20, b21, b22, b23, b24, b25, b26, b27, b28, b29, b30, b31, b32, b33, b34, b35,
     b36, b37, b38, b39, b40, b41, b42, b43, b44, b45, b46, b47, b48, b49, b50, b51, b52,
     b53, b54, b55, b56, b57, b58, b59, b60, b61, b62, b63] =
    [b23, b24, b25, b26, b27, b28, b29, b30, b31, b32, b33, b34, b35, b36, b37, b38, b39,
     b40, b41, b42, b43, b44, b45, b46, b47, b48, b49, b50, b51, b52, b53, b54, b55, b56,
     b57, b58, b59, b60, b61, b62, b63, b0, b1, b2, b3, b4, b5, b6, b7, b8, b9, b10, b11,
     b12, b13, b14, b15, b16, b17, b18, b19, b20, b21, b22]"
  "rotl_bl 43
    [b0, b1, b2, b3, b4, b5, b6, b7, b8, b9, b10, b11, b12, b13, b14, b15, b16, b17, b18,
     b19, b20, b21, b22, b23, b24, b25, b26, b27, b28, b29, b30, b31, b32, b33, b34, b35,
     b36, b37, b38, b39, b40, b41, b42, b43, b44, b45, b46, b47, b48, b49, b50, b51, b52,
     b53, b54, b55, b56, b57, b58, b59, b60, b61, b62, b63] =
    [b21, b22, b23, b24, b25, b26, b27, b28, b29, b30, b31, b32, b33, b34, b35, b36, b37,
     b38, b39, b40, b41, b42, b43, b44, b45, b46, b47, b48, b49, b50, b51, b52, b53, b54,
     b55, b56, b57, b58, b59, b60, b61, b62, b63, b0, b1, b2, b3, b4, b5, b6, b7, b8, b9,
     b10, b11, b12, b13, b14, b15, b16, b17, b18, b19, b20]"
  "rotl_bl 44
    [b0, b1, b2, b3, b4, b5, b6, b7, b8, b9, b10, b11, b12, b13, b14, b15, b16, b17, b18,
     b19, b20, b21, b22, b23, b24, b25, b26, b27, b28, b29, b30, b31, b32, b33, b34, b35,
     b36, b37, b38, b39, b40, b41, b42, b43, b44, b45, b46, b47, b48, b49, b50, b51, b52,
     b53, b54, b55, b56, b57, b58, b59, b60, b61, b62, b63] =
    [b20, b21, b22, b23, b24, b25, b26, b27, b28, b29, b30, b31, b32, b33, b34, b35, b36,
     b37, b38, b39, b40, b41, b42, b43, b44, b45, b46, b47, b48, b49, b50, b51, b52, b53,
     b54, b55, b56, b57, b58, b59, b60, b61, b62, b63, b0, b1, b2, b3, b4, b5, b6, b7, b8,
     b9, b10, b11, b12, b13, b14, b15, b16, b17, b18, b19]"
  "rotl_bl 45
    [b0, b1, b2, b3, b4, b5, b6, b7, b8, b9, b10, b11, b12, b13, b14, b15, b16, b17, b18,
     b19, b20, b21, b22, b23, b24, b25, b26, b27, b28, b29, b30, b31, b32, b33, b34, b35,
     b36, b37, b38, b39, b40, b41, b42, b43, b44, b45, b46, b47, b48, b49, b50, b51, b52,
     b53, b54, b55, b56, b57, b58, b59, b60, b61, b62, b63] =
    [b19, b20, b21, b22, b23, b24, b25, b26, b27, b28, b29, b30, b31, b32, b33, b34, b35,
     b36, b37, b38, b39, b40, b41, b42, b43, b44, b45, b46, b47, b48, b49, b50, b51, b52,
     b53, b54, b55, b56, b57, b58, b59, b60, b61, b62, b63, b0, b1, b2, b3, b4, b5, b6, b7,
     b8, b9, b10, b11, b12, b13, b14, b15, b16, b17, b18]"
  "rotl_bl 55
    [b0, b1, b2, b3, b4, b5, b6, b7, b8, b9, b10, b11, b12, b13, b14, b15, b16, b17, b18,
     b19, b20, b21, b22, b23, b24, b25, b26, b27, b28, b29, b30, b31, b32, b33, b34, b35,
     b36, b37, b38, b39, b40, b41, b42, b43, b44, b45, b46, b47, b48, b49, b50, b51, b52,
     b53, b54, b55, b56, b57, b58, b59, b60, b61, b62, b63] =
    [b9, b10, b11, b12, b13, b14, b15, b16, b17, b18, b19, b20, b21, b22, b23, b24, b25,
     b26, b27, b28, b29, b30, b31, b32, b33, b34, b35, b36, b37, b38, b39, b40, b41, b42,
     b43, b44, b45, b46, b47, b48, b49, b50, b51, b52, b53, b54, b55, b56, b57, b58, b59,
     b60, b61, b62, b63, b0, b1, b2, b3, b4, b5, b6, b7, b8]"
  "rotl_bl 56
    [b0, b1, b2, b3, b4, b5, b6, b7, b8, b9, b10, b11, b12, b13, b14, b15, b16, b17, b18,
     b19, b20, b21, b22, b23, b24, b25, b26, b27, b28, b29, b30, b31, b32, b33, b34, b35,
     b36, b37, b38, b39, b40, b41, b42, b43, b44, b45, b46, b47, b48, b49, b50, b51, b52,
     b53, b54, b55, b56, b57, b58, b59, b60, b61, b62, b63] =
    [b8, b9, b10, b11, b12, b13, b14, b15, b16, b17, b18, b19, b20, b21, b22, b23, b24,
     b25, b26, b27, b28, b29, b30, b31, b32, b33, b34, b35, b36, b37, b38, b39, b40, b41,
     b42, b43, b44, b45, b46, b47, b48, b49, b50, b51, b52, b53, b54, b55, b56, b57, b58,
     b59, b60, b61, b62, b63, b0, b1, b2, b3, b4, b5, b6, b7]"
  "rotl_bl 61
    [b0, b1, b2, b3, b4, b5, b6, b7, b8, b9, b10, b11, b12, b13, b14, b15, b16, b17, b18,
     b19, b20, b21, b22, b23, b24, b25, b26, b27, b28, b29, b30, b31, b32, b33, b34, b35,
     b36, b37, b38, b39, b40, b41, b42, b43, b44, b45, b46, b47, b48, b49, b50, b51, b52,
     b53, b54, b55, b56, b57, b58, b59, b60, b61, b62, b63] =
    [b3, b4, b5, b6, b7, b8, b9, b10, b11, b12, b13, b14, b15, b16, b17, b18, b19, b20,
     b21, b22, b23, b24, b25, b26, b27, b28, b29, b30, b31, b32, b33, b34, b35, b36, b37,
     b38, b39, b40, b41, b42, b43, b44, b45, b46, b47, b48, b49, b50, b51, b52, b53, b54,
     b55, b56, b57, b58, b59, b60, b61, b62, b63, b0, b1, b2]"
  "rotl_bl 62
    [b0, b1, b2, b3, b4, b5, b6, b7, b8, b9, b10, b11, b12, b13, b14, b15, b16, b17, b18,
     b19, b20, b21, b22, b23, b24, b25, b26, b27, b28, b29, b30, b31, b32, b33, b34, b35,
     b36, b37, b38, b39, b40, b41, b42, b43, b44, b45, b46, b47, b48, b49, b50, b51, b52,
     b53, b54, b55, b56, b57, b58, b59, b60, b61, b62, b63] =
    [b2, b3, b4, b5, b6, b7, b8, b9, b10, b11, b12, b13, b14, b15, b16, b17, b18, b19, b20,
     b21, b22, b23, b24, b25, b26, b27, b28, b29, b30, b31, b32, b33, b34, b35, b36, b37,
     b38, b39, b40, b41, b42, b43, b44, b45, b46, b47, b48, b49, b50, b51, b52, b53, b54,
     b55, b56, b57, b58, b59, b60, b61, b62, b63, b0, b1]"
  by (simp_all add: rotl_bl_def pad64_def)

lemma w_of_eval:
  "w_of [] = 0"
  "w_of (False # bs) = Num.dbl (w_of bs)"
  "w_of (True # bs) = Num.dbl_inc (w_of bs)"
proof -
  show "w_of [] = 0" by simp
  show "w_of (False # bs) = Num.dbl (w_of bs)"
    unfolding w_of_Cons Num.dbl_def by (simp only: of_bool_eq or.left_neutral mult_2)
  have "w_of (True # bs) = 1 OR 2 * w_of bs"
    unfolding w_of_Cons by simp
  also have "\<dots> = 2 * w_of bs + 1"
    by (simp only: one_or_eq) simp
  finally show "w_of (True # bs) = Num.dbl_inc (w_of bs)"
    unfolding Num.dbl_inc_def by (simp only: mult_2)
qed

lemma replicate_64_False:
  "replicate 64 False =
    [False, False, False, False, False, False, False, False, False, False, False, False,
     False, False, False, False, False, False, False, False, False, False, False, False,
     False, False, False, False, False, False, False, False, False, False, False, False,
     False, False, False, False, False, False, False, False, False, False, False, False,
     False, False, False, False, False, False, False, False, False, False, False, False,
     False, False, False, False]"
  by (simp add: eval_nat_numeral)

lemma pad64_same: "length s = 64 \<Longrightarrow> pad64 s = s"
  by (simp add: pad64_def)

lemma w_of_RC_bits: "map w_of RC_bits = RC"
  unfolding RC_bits_def RC_def
  by (simp only: list.map w_of_eval Num.dbl_simps Num.dbl_inc_simps)

lemma map_to_bits_RC: "map to_bits RC = RC_bits"
proof -
  have "list_all (\<lambda>s. length s = 64) RC_bits"
    unfolding RC_bits_def by simp
  then have "map pad64 RC_bits = RC_bits"
    by (simp add: list_all_iff pad64_same map_idI)
  then show ?thesis
    unfolding w_of_RC_bits [symmetric] by (simp add: to_bits_w_of comp_def)
qed

lemma to_bits_1: "to_bits 1 = pad64 [True]"
  using to_bits_w_of [of "[True]"] by simp

lemma pad_to_replicate: "pad_to (replicate n c) s = take n (s @ replicate n False)"
proof (induction n arbitrary: s)
  case 0
  then show ?case by simp
next
  case (Suc n)
  show ?case
  proof (cases s)
    case Nil
    then show ?thesis using Suc [of "[]"] by simp
  next
    case (Cons x xs)
    have "take (n - length xs) (False # replicate n False) = replicate (n - length xs) False"
      using take_replicate [of "n - length xs" "Suc n" False] by (simp add: min_def)
    then have "take n (xs @ replicate (Suc n) False) = take n (xs @ replicate n False)"
      by (simp add: min_def)
    then show ?thesis using Suc [of xs] Cons by simp
  qed
qed

lemma pad64_eval:
  "pad64 s = pad_to
    [False, False, False, False, False, False, False, False, False, False, False, False,
     False, False, False, False, False, False, False, False, False, False, False, False,
     False, False, False, False, False, False, False, False, False, False, False, False,
     False, False, False, False, False, False, False, False, False, False, False, False,
     False, False, False, False, False, False, False, False, False, False, False, False,
     False, False, False, False] s"
  unfolding replicate_64_False [symmetric] pad_to_replicate pad64_def ..

lemma keccakf_fun_bits_explicit:
  "keccakf_fun
    [a0, a1, a2, a3, a4, a5, a6, a7, a8, a9, a10, a11, a12, a13, a14, a15, a16, a17, a18,
     a19, a20, a21, a22, a23, a24] =
   map w_of (keccakf_bl
    [to_bits a0, to_bits a1, to_bits a2, to_bits a3, to_bits a4, to_bits a5, to_bits a6,
     to_bits a7, to_bits a8, to_bits a9, to_bits a10, to_bits a11, to_bits a12,
     to_bits a13, to_bits a14, to_bits a15, to_bits a16, to_bits a17, to_bits a18,
     to_bits a19, to_bits a20, to_bits a21, to_bits a22, to_bits a23, to_bits a24])"
  using keccakf_fun_bits
    [of "[a0, a1, a2, a3, a4, a5, a6, a7, a8, a9, a10, a11, a12, a13, a14, a15, a16, a17,
         a18, a19, a20, a21, a22, a23, a24]"]
  by simp

section \<open>Digests computed by evaluation\<close>

text \<open>Four runs of \<^verbatim>\<open>sha3_init\<close>, \<^verbatim>\<open>sha3_update\<close> and \<^verbatim>\<open>sha3_final\<close> for SHA3-256,
  evaluated in the logic: the empty message on the little-endian and on the big-endian
  build, and on the big-endian build sixteen bytes given in one call and in two.\<close>

lemma keccakf_fun_sha3_256_empty:
  "keccakf_fun
    [0x0000000000000006, 0, 0, 0, 0, 0, 0, 0, 0, 0, 0, 0, 0, 0, 0, 0, 0x8000000000000000,
     0, 0, 0, 0, 0, 0, 0, 0] =
    [0x66d71ebff8c6ffa7, 0x62d661a05647c151, 0xfa493be44dff80f5, 0x4a43f8804b0ad882,
     0xe2f36b34b7be6652, 0xff875921cacc9566, 0x80d97b5776b3ba89, 0x28debd55fc6a313b,
     0x03ac3d19f1e48ecc, 0x78193aecc1e434e9, 0xc287a923afe81e79, 0x21684ae301601f33,
     0x282e7e469e09e75f, 0xd17d1ed2c282b6b8, 0xf050e0d2adaf434e, 0x5375f6fb6aa989b0,
     0xc2c6b96032faf11e, 0x63684dd3f055a1b2, 0xd908398b988ec2b2, 0x913f10903e0bd326,
     0x33fc34664d479817, 0x2b715c1a078fde58, 0x140b7c9251369779, 0x857343a7aabdeb5e,
     0x92136e0efb7b70e5]"
  apply (simp only: keccakf_fun_bits_explicit to_bits_numeral to_bits_0 to_bits_1 bits_of_num.simps)
  apply (simp only: pad64_eval pad_to.simps replicate_64_False)
  apply (simp only: keccakf_bl_def map_to_bits_RC RC_bits_def foldl_Cons foldl_Nil round_bl_def
      parity_bl.simps tmp_bl.simps theta_rho_pi_bl.simps chi_bl.simps iota_bl.simps
      xorl.simps andnl.simps rotl_bl_explicit)
  apply (simp only: list.map w_of_eval Num.dbl_simps Num.dbl_inc_simps)
  done

lemma sha3_256_empty_little_endian:
  "sha3_digest \<lparr>big_endian = False, keccakf_loop = False\<rparr>
     \<lparr>index = 0, rate = 0, digest_size = 0, u8 = []\<rparr> 32
     [] =
   Some [0xa7, 0xff, 0xc6, 0xf8, 0xbf, 0x1e, 0xd7, 0x66, 0x51, 0xc1, 0x47, 0x56, 0xa0, 0x61,
        0xd6, 0x62, 0xf5, 0x80, 0xff, 0x4d, 0xe4, 0x3b, 0x49, 0xfa, 0x82, 0xd8, 0x0a, 0x4b,
        0x80, 0xf8, 0x43, 0x4a]"
proof -
  let ?ctx = "\<lparr>index = 0, rate = 136, digest_size = 32,
       u8 = [0, 0, 0, 0, 0, 0, 0, 0, 0, 0, 0, 0, 0, 0, 0, 0, 0, 0, 0, 0, 0, 0, 0, 0, 0, 0,
             0, 0, 0, 0, 0, 0, 0, 0, 0, 0, 0, 0, 0, 0, 0, 0, 0, 0, 0, 0, 0, 0, 0, 0, 0, 0,
             0, 0, 0, 0, 0, 0, 0, 0, 0, 0, 0, 0, 0, 0, 0, 0, 0, 0, 0, 0, 0, 0, 0, 0, 0, 0,
             0, 0, 0, 0, 0, 0, 0, 0, 0, 0, 0, 0, 0, 0, 0, 0, 0, 0, 0, 0, 0, 0, 0, 0, 0, 0,
             0, 0, 0, 0, 0, 0, 0, 0, 0, 0, 0, 0, 0, 0, 0, 0, 0, 0, 0, 0, 0, 0, 0, 0, 0, 0,
             0, 0, 0, 0, 0, 0, 0, 0, 0, 0, 0, 0, 0, 0, 0, 0, 0, 0, 0, 0, 0, 0, 0, 0, 0, 0,
             0, 0, 0, 0, 0, 0, 0, 0, 0, 0, 0, 0, 0, 0, 0, 0, 0, 0, 0, 0, 0, 0, 0, 0, 0, 0,
             0, 0, 0, 0, 0, 0, 0, 0, 0, 0, 0, 0, 0, 0, 0, 0, 0, 0]\<rparr>"
  have upd: "sha3_updates \<lparr>big_endian = False, keccakf_loop = False\<rparr>
      (sha3_init \<lparr>index = 0, rate = 0, digest_size = 0, u8 = []\<rparr> 32) [] =
    Some ?ctx"
    by (simp add: sha3_updates_def sha3_init_def eval_nat_numeral)
  have ok: "ctx_ok ?ctx"
    by (simp add: ctx_ok_def)
  have lanes: "u64_view \<lparr>big_endian = False, keccakf_loop = False\<rparr> (pad_spec ?ctx) =
    [0x0000000000000006, 0, 0, 0, 0, 0, 0, 0, 0, 0, 0, 0, 0, 0, 0, 0, 0x8000000000000000,
     0, 0, 0, 0, 0, 0, 0, 0]"
    by code_simp
  have md: "take 32 (u8_view \<lparr>big_endian = False, keccakf_loop = False\<rparr>
    [0x66d71ebff8c6ffa7, 0x62d661a05647c151, 0xfa493be44dff80f5, 0x4a43f8804b0ad882,
     0xe2f36b34b7be6652, 0xff875921cacc9566, 0x80d97b5776b3ba89, 0x28debd55fc6a313b,
     0x03ac3d19f1e48ecc, 0x78193aecc1e434e9, 0xc287a923afe81e79, 0x21684ae301601f33,
     0x282e7e469e09e75f, 0xd17d1ed2c282b6b8, 0xf050e0d2adaf434e, 0x5375f6fb6aa989b0,
     0xc2c6b96032faf11e, 0x63684dd3f055a1b2, 0xd908398b988ec2b2, 0x913f10903e0bd326,
     0x33fc34664d479817, 0x2b715c1a078fde58, 0x140b7c9251369779, 0x857343a7aabdeb5e,
     0x92136e0efb7b70e5]) =
    [0xa7, 0xff, 0xc6, 0xf8, 0xbf, 0x1e, 0xd7, 0x66, 0x51, 0xc1, 0x47, 0x56, 0xa0, 0x61,
     0xd6, 0x62, 0xf5, 0x80, 0xff, 0x4d, 0xe4, 0x3b, 0x49, 0xfa, 0x82, 0xd8, 0x0a, 0x4b,
     0x80, 0xf8, 0x43, 0x4a]"
    by code_simp
  show ?thesis
    unfolding sha3_digest_def upd
    by (simp only: sha3_final_result [OF ok] lanes keccakf_fun_sha3_256_empty sha3_ctx.select_convs md bind.bind_lunit snd_conv)
qed

lemma keccakf_fun_sha3_256_empty_big_endian:
  "keccakf_fun
    [0x0600000000000000, 0, 0, 0, 0, 0, 0, 0, 0, 0, 0, 0, 0, 0, 0, 0, 0x0000000000000080,
     0, 0, 0, 0, 0, 0, 0, 0] =
    [0x9f29a58d4d8c4437, 0x4da56e6bf8ee63c5, 0x83b0f8fe593c9735, 0x87ba7eb1848123b5,
     0x374cbb22828431d8, 0x217ff571b77c10d0, 0x96a4063503fa9da6, 0xb2ed2da804d5582b,
     0x41e6016cc57ba060, 0xf39d92541c5e464d, 0x3264557940b142f4, 0x9cf60130349998e9,
     0xeb2bbc5cb968d582, 0x1c64762edfb77a38, 0x2640acf41657f401, 0x96a0b5ccd5d89acd,
     0x5f82351ae040c04d, 0x25b31a1141d7c877, 0xe2634a7e64bbd4ad, 0x6583c0991cc79b74,
     0x5c4a89f6bd30d8a0, 0xb2eea7299873e2a0, 0x542142449d48bdaf, 0x338314d414c8ccd1,
     0xbcb85d7abdd0dfbd]"
  apply (simp only: keccakf_fun_bits_explicit to_bits_numeral to_bits_0 to_bits_1 bits_of_num.simps)
  apply (simp only: pad64_eval pad_to.simps replicate_64_False)
  apply (simp only: keccakf_bl_def map_to_bits_RC RC_bits_def foldl_Cons foldl_Nil round_bl_def
      parity_bl.simps tmp_bl.simps theta_rho_pi_bl.simps chi_bl.simps iota_bl.simps
      xorl.simps andnl.simps rotl_bl_explicit)
  apply (simp only: list.map w_of_eval Num.dbl_simps Num.dbl_inc_simps)
  done

lemma sha3_256_empty_big_endian:
  "sha3_digest \<lparr>big_endian = True, keccakf_loop = False\<rparr>
     \<lparr>index = 0, rate = 0, digest_size = 0, u8 = []\<rparr> 32
     [] =
   Some [0x9f, 0x29, 0xa5, 0x8d, 0x4d, 0x8c, 0x44, 0x37, 0x4d, 0xa5, 0x6e, 0x6b, 0xf8, 0xee,
        0x63, 0xc5, 0x83, 0xb0, 0xf8, 0xfe, 0x59, 0x3c, 0x97, 0x35, 0x87, 0xba, 0x7e, 0xb1,
        0x84, 0x81, 0x23, 0xb5]"
proof -
  let ?ctx = "\<lparr>index = 0, rate = 136, digest_size = 32,
       u8 = [0, 0, 0, 0, 0, 0, 0, 0, 0, 0, 0, 0, 0, 0, 0, 0, 0, 0, 0, 0, 0, 0, 0, 0, 0, 0,
             0, 0, 0, 0, 0, 0, 0, 0, 0, 0, 0, 0, 0, 0, 0, 0, 0, 0, 0, 0, 0, 0, 0, 0, 0, 0,
             0, 0, 0, 0, 0, 0, 0, 0, 0, 0, 0, 0, 0, 0, 0, 0, 0, 0, 0, 0, 0, 0, 0, 0, 0, 0,
             0, 0, 0, 0, 0, 0, 0, 0, 0, 0, 0, 0, 0, 0, 0, 0, 0, 0, 0, 0, 0, 0, 0, 0, 0, 0,
             0, 0, 0, 0, 0, 0, 0, 0, 0, 0, 0, 0, 0, 0, 0, 0, 0, 0, 0, 0, 0, 0, 0, 0, 0, 0,
             0, 0, 0, 0, 0, 0, 0, 0, 0, 0, 0, 0, 0, 0, 0, 0, 0, 0, 0, 0, 0, 0, 0, 0, 0, 0,
             0, 0, 0, 0, 0, 0, 0, 0, 0, 0, 0, 0, 0, 0, 0, 0, 0, 0, 0, 0, 0, 0, 0, 0, 0, 0,
             0, 0, 0, 0, 0, 0, 0, 0, 0, 0, 0, 0, 0, 0, 0, 0, 0, 0]\<rparr>"
  have upd: "sha3_updates \<lparr>big_endian = True, keccakf_loop = False\<rparr>
      (sha3_init \<lparr>index = 0, rate = 0, digest_size = 0, u8 = []\<rparr> 32) [] =
    Some ?ctx"
    by (simp add: sha3_updates_def sha3_init_def eval_nat_numeral)
  have ok: "ctx_ok ?ctx"
    by (simp add: ctx_ok_def)
  have lanes: "u64_view \<lparr>big_endian = True, keccakf_loop = False\<rparr> (pad_spec ?ctx) =
    [0x0600000000000000, 0, 0, 0, 0, 0, 0, 0, 0, 0, 0, 0, 0, 0, 0, 0, 0x0000000000000080,
     0, 0, 0, 0, 0, 0, 0, 0]"
    by code_simp
  have md: "take 32 (u8_view \<lparr>big_endian = True, keccakf_loop = False\<rparr>
    [0x9f29a58d4d8c4437, 0x4da56e6bf8ee63c5, 0x83b0f8fe593c9735, 0x87ba7eb1848123b5,
     0x374cbb22828431d8, 0x217ff571b77c10d0, 0x96a4063503fa9da6, 0xb2ed2da804d5582b,
     0x41e6016cc57ba060, 0xf39d92541c5e464d, 0x3264557940b142f4, 0x9cf60130349998e9,
     0xeb2bbc5cb968d582, 0x1c64762edfb77a38, 0x2640acf41657f401, 0x96a0b5ccd5d89acd,
     0x5f82351ae040c04d, 0x25b31a1141d7c877, 0xe2634a7e64bbd4ad, 0x6583c0991cc79b74,
     0x5c4a89f6bd30d8a0, 0xb2eea7299873e2a0, 0x542142449d48bdaf, 0x338314d414c8ccd1,
     0xbcb85d7abdd0dfbd]) =
    [0x9f, 0x29, 0xa5, 0x8d, 0x4d, 0x8c, 0x44, 0x37, 0x4d, 0xa5, 0x6e, 0x6b, 0xf8, 0xee,
     0x63, 0xc5, 0x83, 0xb0, 0xf8, 0xfe, 0x59, 0x3c, 0x97, 0x35, 0x87, 0xba, 0x7e, 0xb1,
     0x84, 0x81, 0x23, 0xb5]"
    by code_simp
  show ?thesis
    unfolding sha3_digest_def upd
    by (simp only: sha3_final_result [OF ok] lanes keccakf_fun_sha3_256_empty_big_endian sha3_ctx.select_convs md bind.bind_lunit snd_conv)
qed

lemma keccakf_fun_one_call_big_endian:
  "keccakf_fun
    [0, 0x0000000000000001, 0x0600000000000000, 0, 0, 0, 0, 0, 0, 0, 0, 0, 0, 0, 0, 0,
     0x0000000000000080, 0, 0, 0, 0, 0, 0, 0, 0] =
    [0x3c35bf8e3d131cca, 0x85b344f59f98d12c, 0xfc3858effeede287, 0xede02cb466d545f3,
     0xd365522675fcd163, 0x8c5bd3889e946952, 0x15a55c35a5d358b8, 0xf90c4017ea1af571,
     0xc71abc6d0b2c582a, 0xf6fb64cd0114a71a, 0x193924790b6fc58d, 0x0070298d3574477e,
     0x9536781a3b33dea9, 0xf39393c179692b4f, 0x835db250c34790ae, 0xb8312a29ec5f00a2,
     0x41bd63df57a84675, 0xf98b4cc4a47f6d58, 0x669fceaa2eb309ed, 0xfb291506a7cce2ad,
     0xfff57f9f8f59b879, 0xb12882ba3a7c93cd, 0xd47e626fb95bb2fc, 0x3cf4124e78f42753,
     0x3569b710af2fa9db]"
  apply (simp only: keccakf_fun_bits_explicit to_bits_numeral to_bits_0 to_bits_1 bits_of_num.simps)
  apply (simp only: pad64_eval pad_to.simps replicate_64_False)
  apply (simp only: keccakf_bl_def map_to_bits_RC RC_bits_def foldl_Cons foldl_Nil round_bl_def
      parity_bl.simps tmp_bl.simps theta_rho_pi_bl.simps chi_bl.simps iota_bl.simps
      xorl.simps andnl.simps rotl_bl_explicit)
  apply (simp only: list.map w_of_eval Num.dbl_simps Num.dbl_inc_simps)
  done

lemma sha3_256_one_call_big_endian:
  "sha3_digest \<lparr>big_endian = True, keccakf_loop = False\<rparr>
     \<lparr>index = 0, rate = 0, digest_size = 0, u8 = []\<rparr> 32
     [(0, [0, 0, 0, 0, 0, 0, 0, 0, 0x01, 0, 0, 0, 0, 0, 0, 0])] =
   Some [0x3c, 0x35, 0xbf, 0x8e, 0x3d, 0x13, 0x1c, 0xca, 0x85, 0xb3, 0x44, 0xf5, 0x9f, 0x98,
        0xd1, 0x2c, 0xfc, 0x38, 0x58, 0xef, 0xfe, 0xed, 0xe2, 0x87, 0xed, 0xe0, 0x2c, 0xb4,
        0x66, 0xd5, 0x45, 0xf3]"
proof -
  let ?ctx = "\<lparr>index = 16, rate = 136, digest_size = 32,
       u8 = [0, 0, 0, 0, 0, 0, 0, 0, 0, 0, 0, 0, 0, 0, 0, 0x01, 0, 0, 0, 0, 0, 0, 0, 0, 0,
             0, 0, 0, 0, 0, 0, 0, 0, 0, 0, 0, 0, 0, 0, 0, 0, 0, 0, 0, 0, 0, 0, 0, 0, 0, 0,
             0, 0, 0, 0, 0, 0, 0, 0, 0, 0, 0, 0, 0, 0, 0, 0, 0, 0, 0, 0, 0, 0, 0, 0, 0, 0,
             0, 0, 0, 0, 0, 0, 0, 0, 0, 0, 0, 0, 0, 0, 0, 0, 0, 0, 0, 0, 0, 0, 0, 0, 0, 0,
             0, 0, 0, 0, 0, 0, 0, 0, 0, 0, 0, 0, 0, 0, 0, 0, 0, 0, 0, 0, 0, 0, 0, 0, 0, 0,
             0, 0, 0, 0, 0, 0, 0, 0, 0, 0, 0, 0, 0, 0, 0, 0, 0, 0, 0, 0, 0, 0, 0, 0, 0, 0,
             0, 0, 0, 0, 0, 0, 0, 0, 0, 0, 0, 0, 0, 0, 0, 0, 0, 0, 0, 0, 0, 0, 0, 0, 0, 0,
             0, 0, 0, 0, 0, 0, 0, 0, 0, 0, 0, 0, 0, 0, 0, 0, 0, 0, 0]\<rparr>"
  have upd: "sha3_updates \<lparr>big_endian = True, keccakf_loop = False\<rparr>
      (sha3_init \<lparr>index = 0, rate = 0, digest_size = 0, u8 = []\<rparr> 32)
      [(0, [0, 0, 0, 0, 0, 0, 0, 0, 0x01, 0, 0, 0, 0, 0, 0, 0])] =
    Some ?ctx"
    by code_simp
  have ok: "ctx_ok ?ctx"
    by (simp add: ctx_ok_def)
  have lanes: "u64_view \<lparr>big_endian = True, keccakf_loop = False\<rparr> (pad_spec ?ctx) =
    [0, 0x0000000000000001, 0x0600000000000000, 0, 0, 0, 0, 0, 0, 0, 0, 0, 0, 0, 0, 0,
     0x0000000000000080, 0, 0, 0, 0, 0, 0, 0, 0]"
    by code_simp
  have md: "take 32 (u8_view \<lparr>big_endian = True, keccakf_loop = False\<rparr>
    [0x3c35bf8e3d131cca, 0x85b344f59f98d12c, 0xfc3858effeede287, 0xede02cb466d545f3,
     0xd365522675fcd163, 0x8c5bd3889e946952, 0x15a55c35a5d358b8, 0xf90c4017ea1af571,
     0xc71abc6d0b2c582a, 0xf6fb64cd0114a71a, 0x193924790b6fc58d, 0x0070298d3574477e,
     0x9536781a3b33dea9, 0xf39393c179692b4f, 0x835db250c34790ae, 0xb8312a29ec5f00a2,
     0x41bd63df57a84675, 0xf98b4cc4a47f6d58, 0x669fceaa2eb309ed, 0xfb291506a7cce2ad,
     0xfff57f9f8f59b879, 0xb12882ba3a7c93cd, 0xd47e626fb95bb2fc, 0x3cf4124e78f42753,
     0x3569b710af2fa9db]) =
    [0x3c, 0x35, 0xbf, 0x8e, 0x3d, 0x13, 0x1c, 0xca, 0x85, 0xb3, 0x44, 0xf5, 0x9f, 0x98,
     0xd1, 0x2c, 0xfc, 0x38, 0x58, 0xef, 0xfe, 0xed, 0xe2, 0x87, 0xed, 0xe0, 0x2c, 0xb4,
     0x66, 0xd5, 0x45, 0xf3]"
    by code_simp
  show ?thesis
    unfolding sha3_digest_def upd
    by (simp only: sha3_final_result [OF ok] lanes keccakf_fun_one_call_big_endian sha3_ctx.select_convs md bind.bind_lunit snd_conv)
qed

lemma keccakf_fun_two_calls_big_endian:
  "keccakf_fun
    [0, 0x0100000000000000, 0x0600000000000000, 0, 0, 0, 0, 0, 0, 0, 0, 0, 0, 0, 0, 0,
     0x0000000000000080, 0, 0, 0, 0, 0, 0, 0, 0] =
    [0x940431f7bfaf3763, 0x5c436c87590b0e4b, 0x15f8cf6ffcec598a, 0x4c5a68cc9f3ff46d,
     0xc89c865c5d36d47d, 0xd33bf98ca571934b, 0xc1855fa34d2ab00d, 0xcef407db9e097b68,
     0x4439d4b69d9b4a2b, 0x9445e5edbce0eb4c, 0xd4625adf179cf381, 0x4560b65d5110cdb5,
     0x5c348f68ed482380, 0x36fb0f69475cebb0, 0x46e1c5e91bdfed8e, 0x758d7be54103b889,
     0xb2ddf9fa2ff2e403, 0xc371f9baa25e9967, 0xb0ae5fe1caf58f16, 0xa58f7e463513653b,
     0xd08a8ff48cb785ca, 0xde5e112af85ff16b, 0xb410eea5ff5979ae, 0x0501d048cadbccdd,
     0xed7eacf5f4a42bbf]"
  apply (simp only: keccakf_fun_bits_explicit to_bits_numeral to_bits_0 to_bits_1 bits_of_num.simps)
  apply (simp only: pad64_eval pad_to.simps replicate_64_False)
  apply (simp only: keccakf_bl_def map_to_bits_RC RC_bits_def foldl_Cons foldl_Nil round_bl_def
      parity_bl.simps tmp_bl.simps theta_rho_pi_bl.simps chi_bl.simps iota_bl.simps
      xorl.simps andnl.simps rotl_bl_explicit)
  apply (simp only: list.map w_of_eval Num.dbl_simps Num.dbl_inc_simps)
  done

lemma sha3_256_two_calls_big_endian:
  "sha3_digest \<lparr>big_endian = True, keccakf_loop = False\<rparr>
     \<lparr>index = 0, rate = 0, digest_size = 0, u8 = []\<rparr> 32
     [(0, [0, 0, 0, 0, 0, 0, 0, 0, 0x01]), (9, [0, 0, 0, 0, 0, 0, 0])] =
   Some [0x94, 0x04, 0x31, 0xf7, 0xbf, 0xaf, 0x37, 0x63, 0x5c, 0x43, 0x6c, 0x87, 0x59, 0x0b,
        0x0e, 0x4b, 0x15, 0xf8, 0xcf, 0x6f, 0xfc, 0xec, 0x59, 0x8a, 0x4c, 0x5a, 0x68, 0xcc,
        0x9f, 0x3f, 0xf4, 0x6d]"
proof -
  let ?ctx = "\<lparr>index = 16, rate = 136, digest_size = 32,
       u8 = [0, 0, 0, 0, 0, 0, 0, 0, 0x01, 0, 0, 0, 0, 0, 0, 0, 0, 0, 0, 0, 0, 0, 0, 0, 0,
             0, 0, 0, 0, 0, 0, 0, 0, 0, 0, 0, 0, 0, 0, 0, 0, 0, 0, 0, 0, 0, 0, 0, 0, 0, 0,
             0, 0, 0, 0, 0, 0, 0, 0, 0, 0, 0, 0, 0, 0, 0, 0, 0, 0, 0, 0, 0, 0, 0, 0, 0, 0,
             0, 0, 0, 0, 0, 0, 0, 0, 0, 0, 0, 0, 0, 0, 0, 0, 0, 0, 0, 0, 0, 0, 0, 0, 0, 0,
             0, 0, 0, 0, 0, 0, 0, 0, 0, 0, 0, 0, 0, 0, 0, 0, 0, 0, 0, 0, 0, 0, 0, 0, 0, 0,
             0, 0, 0, 0, 0, 0, 0, 0, 0, 0, 0, 0, 0, 0, 0, 0, 0, 0, 0, 0, 0, 0, 0, 0, 0, 0,
             0, 0, 0, 0, 0, 0, 0, 0, 0, 0, 0, 0, 0, 0, 0, 0, 0, 0, 0, 0, 0, 0, 0, 0, 0, 0,
             0, 0, 0, 0, 0, 0, 0, 0, 0, 0, 0, 0, 0, 0, 0, 0, 0, 0, 0]\<rparr>"
  have upd: "sha3_updates \<lparr>big_endian = True, keccakf_loop = False\<rparr>
      (sha3_init \<lparr>index = 0, rate = 0, digest_size = 0, u8 = []\<rparr> 32)
      [(0, [0, 0, 0, 0, 0, 0, 0, 0, 0x01]), (9, [0, 0, 0, 0, 0, 0, 0])] =
    Some ?ctx"
    by code_simp
  have ok: "ctx_ok ?ctx"
    by (simp add: ctx_ok_def)
  have lanes: "u64_view \<lparr>big_endian = True, keccakf_loop = False\<rparr> (pad_spec ?ctx) =
    [0, 0x0100000000000000, 0x0600000000000000, 0, 0, 0, 0, 0, 0, 0, 0, 0, 0, 0, 0, 0,
     0x0000000000000080, 0, 0, 0, 0, 0, 0, 0, 0]"
    by code_simp
  have md: "take 32 (u8_view \<lparr>big_endian = True, keccakf_loop = False\<rparr>
    [0x940431f7bfaf3763, 0x5c436c87590b0e4b, 0x15f8cf6ffcec598a, 0x4c5a68cc9f3ff46d,
     0xc89c865c5d36d47d, 0xd33bf98ca571934b, 0xc1855fa34d2ab00d, 0xcef407db9e097b68,
     0x4439d4b69d9b4a2b, 0x9445e5edbce0eb4c, 0xd4625adf179cf381, 0x4560b65d5110cdb5,
     0x5c348f68ed482380, 0x36fb0f69475cebb0, 0x46e1c5e91bdfed8e, 0x758d7be54103b889,
     0xb2ddf9fa2ff2e403, 0xc371f9baa25e9967, 0xb0ae5fe1caf58f16, 0xa58f7e463513653b,
     0xd08a8ff48cb785ca, 0xde5e112af85ff16b, 0xb410eea5ff5979ae, 0x0501d048cadbccdd,
     0xed7eacf5f4a42bbf]) =
    [0x94, 0x04, 0x31, 0xf7, 0xbf, 0xaf, 0x37, 0x63, 0x5c, 0x43, 0x6c, 0x87, 0x59, 0x0b,
     0x0e, 0x4b, 0x15, 0xf8, 0xcf, 0x6f, 0xfc, 0xec, 0x59, 0x8a, 0x4c, 0x5a, 0x68, 0xcc,
     0x9f, 0x3f, 0xf4, 0x6d]"
    by code_simp
  show ?thesis
    unfolding sha3_digest_def upd
    by (simp only: sha3_final_result [OF ok] lanes keccakf_fun_two_calls_big_endian sha3_ctx.select_convs md bind.bind_lunit snd_conv)
qed

section \<open>Claims about the permutation engine\<close>

text \<open>Claim C5. For every state of 25 lanes the loop version of \<^verbatim>\<open>keccakf_1600\<close> runs
  24 rounds with the indices 0 to 23, and every round applies \<open>\<theta>\<close>, \<open>\<rho>\<close>, \<open>\<pi>\<close>,
  \<open>\<chi>\<close> and \<open>\<iota>\<close> in this order. The \<open>\<theta>\<close> block computes \<^const>\<open>theta_spec\<close>: the
  parity of column \<open>x\<close> is the XOR of its five lanes and lane \<open>(x, y)\<close> is XORed with
  \<open>parity[(x + 4) mod 5] XOR rotateLeft(parity[(x + 1) mod 5], 1)\<close>. The \<open>\<iota>\<close>
  statement XORs lane 0 with entry \<open>i_r\<close> of the table of 24 round constants and leaves
  every other lane as it is.\<close>

theorem keccakf_1600_loop_rounds:
  assumes "length A = 25"
  shows "keccakf_1600_loop A =
      ofold (\<lambda>A i_r. do { A \<leftarrow> theta_step A; A \<leftarrow> rho_step A;
                           Some (iota_step i_r (chi_step (pi_step A))) }) A [0..<24]
    \<and> keccakf_1600_loop A =
      Some (foldl (\<lambda>A i_r. iota_step i_r (chi_fun (pi_fun (rho_fun (theta_spec A))))) A [0..<24])
    \<and> theta_step A = Some (theta_spec A)
    \<and> length RC = 24
    \<and> iota_step i_r A ! 0 = A ! 0 XOR RC ! i_r
    \<and> (\<forall>k. 0 < k \<and> k < 25 \<longrightarrow> iota_step i_r A ! k = A ! k)
    \<and> length (iota_step i_r A) = 25"
proof -
  have "keccakf_1600_loop A =
      ofold (\<lambda>A i_r. do { A \<leftarrow> theta_step A; A \<leftarrow> rho_step A;
                           Some (iota_step i_r (chi_step (pi_step A))) }) A [0..<24]"
    unfolding keccakf_1600_loop_def round_loop_def ..
  moreover have "keccakf_1600_loop A =
      Some (foldl (\<lambda>A i_r. iota_step i_r (chi_fun (pi_fun (rho_fun (theta_spec A))))) A [0..<24])"
    using assms keccakf_1600_loop_fun [of A]
    by (simp add: keccakf_fun_def round_fun_def theta_fun_spec)
  moreover have "theta_step A = Some (theta_spec A)"
    using assms by (simp add: theta_step_fun theta_fun_spec)
  moreover have "length RC = 24"
    by (simp add: RC_def)
  ultimately show ?thesis
    using assms by (simp add: iota_step_def)
qed

theorem keccakf_1600_loop_rounds_witness:
  "length (replicate 25 (0 :: uint64)) = 25
   \<and> theta_step (replicate 25 0) = Some (theta_spec (replicate 25 0))
   \<and> 0 < (7 :: nat) \<and> (7 :: nat) < 25 \<and> iota_step 3 (replicate 25 0) ! 7 = replicate 25 0 ! 7
   \<and> iota_step 3 (replicate 25 0) ! 0 = replicate 25 0 ! 0 XOR RC ! 3"
  using keccakf_1600_loop_rounds [of "replicate 25 0" 3] by simp

text \<open>Claim C6. For every state of 25 lanes the unrolled version and the loop version of
  \<^verbatim>\<open>keccakf_1600\<close> return the same state: the fused pass equals \<open>\<theta>\<close>, \<open>\<rho>\<close> and
  \<open>\<pi>\<close> run one after the other, the five per-row \<open>\<chi>\<close> blocks equal the \<open>\<chi>\<close>
  loop, every round agrees, and so do the 24 rounds.\<close>

theorem keccakf_1600_loop_eq_unrolled:
  assumes "length A = 25"
  shows "pi_rho_theta A = do { A \<leftarrow> theta_step A; A \<leftarrow> rho_step A; Some (pi_step A) }
    \<and> chi_row 20 (chi_row 15 (chi_row 10 (chi_row 5 (chi_row 0 A)))) = chi_step A
    \<and> round_unrolled A i_r = round_loop A i_r
    \<and> keccakf_1600_unrolled A = keccakf_1600_loop A"
  using assms
  by (simp add: pi_rho_theta_fun theta_step_fun rho_step_fun pi_step_fun chi_rows_fun chi_step_fun
      round_unrolled_fun round_loop_fun keccakf_1600_unrolled_fun keccakf_1600_loop_fun)

theorem keccakf_1600_loop_eq_unrolled_witness:
  "length (replicate 25 (0 :: uint64)) = 25
   \<and> keccakf_1600_unrolled (replicate 25 0) = keccakf_1600_loop (replicate 25 0)"
  using keccakf_1600_loop_eq_unrolled [of "replicate 25 0"] by simp

text \<open>Claim C10. A call of \<^verbatim>\<open>rotl64\<close> is defined exactly when its count is between 1 and
  63, and then both shift counts are below 64 and the result is the circular left rotation.
  The model of either version of \<^verbatim>\<open>keccakf_1600\<close> returns \<open>None\<close> as soon as one of
  its calls of \<^verbatim>\<open>rotl64\<close> is undefined; on every state of 25 lanes both return a state,
  so every call they make has its count in that range. The counts are the entries of the
  \<open>\<rho>\<close> table and the constants of the fused pass, all between 1 and 62, and the
  constant 1 of \<open>\<theta>\<close>.\<close>

theorem rotl64_counts_defined:
  assumes "length A = 25"
  shows "(\<exists>B. keccakf_1600_loop A = Some B) \<and> (\<exists>B. keccakf_1600_unrolled A = Some B)
    \<and> (\<forall>n \<in> set rho. 1 \<le> n \<and> n \<le> 62)
    \<and> (\<forall>(d, s, t, n) \<in> set fused_assignments. 1 \<le> n \<and> n \<le> 62)
    \<and> (rotl64 x n \<noteq> None \<longleftrightarrow> 1 \<le> n \<and> n \<le> 63)
    \<and> (1 \<le> n \<and> n \<le> 63 \<longrightarrow> n < 64 \<and> 64 - n < 64 \<and> rotl64 x n = Some (word_rotl n x))"
proof -
  have "\<forall>n \<in> set rho. 1 \<le> n \<and> n \<le> 62"
    by (simp add: rho_def)
  moreover have "\<forall>(d, s, t, n) \<in> set fused_assignments. 1 \<le> n \<and> n \<le> 62"
    by (simp add: fused_assignments_def)
  moreover have "1 \<le> n \<and> n \<le> 63 \<longrightarrow> n < 64 \<and> 64 - n < 64 \<and> rotl64 x n = Some (word_rotl n x)"
    by (auto simp: rotl64_Some rotl64_val_word_rotl)
  ultimately show ?thesis
    using assms rotl64_defined_iff [of x n]
    by (simp add: keccakf_1600_loop_fun keccakf_1600_unrolled_fun)
qed

theorem rotl64_counts_defined_witness:
  "length (replicate 25 (0 :: uint64)) = 25
   \<and> keccakf_1600_loop (replicate 25 0) \<noteq> None \<and> keccakf_1600_unrolled (replicate 25 0) \<noteq> None
   \<and> 62 \<in> set rho \<and> (20, 2, 2, 62) \<in> set fused_assignments
   \<and> rotl64 5 62 = Some (word_rotl 62 5)"
proof -
  have "62 \<in> set rho" "(20, 2, 2, 62) \<in> set fused_assignments"
    by (simp_all add: rho_def fused_assignments_def)
  then show ?thesis
    using rotl64_counts_defined [of "replicate 25 0" 5 62] by auto
qed

section \<open>Claims about the sponge driver\<close>

text \<open>Claim C8. For every selector among 28, 32, 48 and 64 and every context,
  \<^verbatim>\<open>sha3_init\<close> sets the fill index to 0, the rate to \<open>200 - 2 * algo\<close> (144, 136, 104
  and 72), the digest size to \<open>algo\<close> and the state to 200 zero bytes.\<close>

theorem sha3_init_fields:
  assumes "algo \<in> {28, 32, 48, 64}"
  shows "index (sha3_init ctx algo) = 0
    \<and> int (rate (sha3_init ctx algo)) = 200 - 2 * algo
    \<and> int (digest_size (sha3_init ctx algo)) = algo
    \<and> u8 (sha3_init ctx algo) = replicate 200 0
    \<and> rate (sha3_init ctx 28) = 144 \<and> rate (sha3_init ctx 32) = 136
    \<and> rate (sha3_init ctx 48) = 104 \<and> rate (sha3_init ctx 64) = 72
    \<and> ctx_ok (sha3_init ctx algo)"
  using assms by (auto simp: sha3_init_def ctx_ok_def)

theorem sha3_init_fields_witness:
  "(32 :: int) \<in> {28, 32, 48, 64}
   \<and> rate (sha3_init \<lparr>index = 7, rate = 9, digest_size = 3, u8 = [1, 2]\<rparr> 32) = 136
   \<and> digest_size (sha3_init \<lparr>index = 7, rate = 9, digest_size = 3, u8 = [1, 2]\<rparr> 32) = 32
   \<and> index (sha3_init \<lparr>index = 7, rate = 9, digest_size = 3, u8 = [1, 2]\<rparr> 32) = 0
   \<and> u8 (sha3_init \<lparr>index = 7, rate = 9, digest_size = 3, u8 = [1, 2]\<rparr> 32) = replicate 200 0"
  using sha3_init_fields [of 32 "\<lparr>index = 7, rate = 9, digest_size = 3, u8 = [1, 2]\<rparr>"] by simp

text \<open>Claim C4. For every context with one of the four rates and a fill index below it,
  on every build, \<^verbatim>\<open>sha3_final\<close> is defined and does the following. The state bytes
  become \<^const>\<open>pad_spec\<close>: \<open>0x06\<close> is XORed into the byte at the fill index and
  \<open>0x80\<close> into the byte at \<open>rate - 1\<close>, that is \<open>0x86\<close> into the one byte when the
  fill index is \<open>rate - 1\<close>, and no other byte changes. The permutation is called once
  on that state. The bytes written are the first \<open>digest_size\<close> bytes of the byte view
  after this call, and there are \<open>digest_size\<close> of them, one of 28, 32, 48 and 64.\<close>

theorem sha3_final_pads_and_squeezes:
  assumes "ctx_ok ctx"
  shows "\<exists>ctx1 ctx' md.
      keccakf_ctx b (ctx\<lparr>u8 := pad_spec ctx\<rparr>) = Some ctx1
    \<and> sha3_final b ctx = Some (ctx', md)
    \<and> md = take (digest_size ctx) (u8 ctx1)
    \<and> length md = digest_size ctx
    \<and> digest_size ctx \<in> {28, 32, 48, 64}
    \<and> pad_spec ctx ! index ctx =
        u8 ctx ! index ctx XOR (if index ctx = rate ctx - 1 then 0x86 else 0x06)
    \<and> pad_spec ctx ! (rate ctx - 1) =
        u8 ctx ! (rate ctx - 1) XOR (if index ctx = rate ctx - 1 then 0x86 else 0x80)
    \<and> (\<forall>j < 200. j \<noteq> index ctx \<and> j \<noteq> rate ctx - 1 \<longrightarrow> pad_spec ctx ! j = u8 ctx ! j)
    \<and> length (pad_spec ctx) = 200"
proof -
  have "pad_spec ctx ! index ctx =
        u8 ctx ! index ctx XOR (if index ctx = rate ctx - 1 then 0x86 else 0x06)"
    and "pad_spec ctx ! (rate ctx - 1) =
        u8 ctx ! (rate ctx - 1) XOR (if index ctx = rate ctx - 1 then 0x86 else 0x80)"
    and "\<forall>j < 200. j \<noteq> index ctx \<and> j \<noteq> rate ctx - 1 \<longrightarrow> pad_spec ctx ! j = u8 ctx ! j"
    and "length (pad_spec ctx) = 200"
    using ctx_ok_bounds [OF assms] by (simp_all add: pad_spec_def xor.assoc)
  then show ?thesis
    using ctx_ok_bounds [OF assms]
    by (simp add: sha3_final_result [OF assms] keccakf_ctx_fun)
qed

theorem sha3_final_pads_and_squeezes_witness:
  "ctx_ok \<lparr>index = 135, rate = 136, digest_size = 32, u8 = replicate 200 0\<rparr>
   \<and> pad_spec \<lparr>index = 135, rate = 136, digest_size = 32, u8 = replicate 200 0\<rparr> ! 135 = 0x86
   \<and> (\<exists>ctx' md.
        sha3_final \<lparr>big_endian = False, keccakf_loop = False\<rparr>
          \<lparr>index = 135, rate = 136, digest_size = 32, u8 = replicate 200 0\<rparr> = Some (ctx', md)
        \<and> length md = 32)"
proof -
  have ok: "ctx_ok \<lparr>index = 135, rate = 136, digest_size = 32, u8 = replicate 200 0\<rparr>"
    by (simp add: ctx_ok_def)
  show ?thesis
    using ok sha3_final_pads_and_squeezes [OF ok, of "\<lparr>big_endian = False, keccakf_loop = False\<rparr>"]
    by auto
qed

text \<open>Claim C9, as amended. For every context with one of the four rates and a fill index
  below it, after \<^verbatim>\<open>sha3_final\<close> the 200 state bytes are zero, the rate and the digest
  size are unchanged and the fill index keeps the value it had on entry. The context
  left behind is a freshly initialised one exactly when that fill index was 0.\<close>

theorem sha3_final_wipes_state:
  assumes "ctx_ok ctx"
  shows "\<exists>ctx' md.
      sha3_final b ctx = Some (ctx', md)
    \<and> u8 ctx' = replicate 200 0
    \<and> rate ctx' = rate ctx \<and> digest_size ctx' = digest_size ctx
    \<and> index ctx' = index ctx
    \<and> ((\<exists>c algo. ctx' = sha3_init c algo) \<longleftrightarrow> index ctx = 0)"
proof -
  let ?ctx' = "ctx\<lparr>u8 := replicate 200 0\<rparr>"
  have "(\<exists>c algo. ?ctx' = sha3_init c algo) \<longleftrightarrow> index ctx = 0"
  proof
    assume "\<exists>c algo. ?ctx' = sha3_init c algo"
    then obtain c algo where "?ctx' = sha3_init c algo" by blast
    then have "index ?ctx' = index (sha3_init c algo)" by simp
    then show "index ctx = 0" by (simp add: sha3_init_def)
  next
    assume "index ctx = 0"
    then have "?ctx' = sha3_init ctx (int (digest_size ctx))"
      using assms by (auto simp: sha3_init_def ctx_ok_def)
    then show "\<exists>c algo. ?ctx' = sha3_init c algo" by blast
  qed
  then show ?thesis
    by (simp add: sha3_final_result [OF assms])
qed

theorem sha3_final_wipes_state_witness:
  "ctx_ok \<lparr>index = 3, rate = 136, digest_size = 32, u8 = replicate 200 0\<rparr>
   \<and> (\<exists>ctx' md.
        sha3_final \<lparr>big_endian = False, keccakf_loop = False\<rparr>
          \<lparr>index = 3, rate = 136, digest_size = 32, u8 = replicate 200 0\<rparr> = Some (ctx', md)
        \<and> u8 ctx' = replicate 200 0 \<and> rate ctx' = 136 \<and> digest_size ctx' = 32 \<and> index ctx' = 3)"
proof -
  have ok: "ctx_ok \<lparr>index = 3, rate = 136, digest_size = 32, u8 = replicate 200 0\<rparr>"
    by (simp add: ctx_ok_def)
  show ?thesis
    using ok sha3_final_wipes_state [OF ok, of "\<lparr>big_endian = False, keccakf_loop = False\<rparr>"]
    by auto
qed

text \<open>The claim as it was stated fails for a context whose fill index is 0: finalising a
  freshly initialised SHA3-256 context leaves exactly that freshly initialised context.\<close>

theorem sha3_final_fresh_counterexample:
  "map_option fst
     (sha3_final \<lparr>big_endian = False, keccakf_loop = False\<rparr>
        (sha3_init \<lparr>index = 0, rate = 0, digest_size = 0, u8 = []\<rparr> 32)) =
   Some (sha3_init \<lparr>index = 0, rate = 0, digest_size = 0, u8 = []\<rparr> 32)"
proof -
  have "ctx_ok (sha3_init \<lparr>index = 0, rate = 0, digest_size = 0, u8 = []\<rparr> 32)"
    by (simp add: sha3_init_def ctx_ok_def)
  then show ?thesis
    by (simp add: sha3_final_result) (simp add: sha3_init_def)
qed

section \<open>The big-endian build\<close>

text \<open>Claim C2, evaluated where it fails. On the big-endian build a fresh SHA3-256 context
  is given the nine bytes 0, 0, 0, 0, 0, 0, 0, 0, 1 in one call of \<^verbatim>\<open>sha3_update\<close>
  (nine is not a multiple of 8, so the byte loop runs). The ninth byte has fill index 8:
  it belongs in byte 0 of lane 1, which would make the lane \<open>0x01\<close>, as it is on the
  little-endian build. The big-endian code XORs it into \<^verbatim>\<open>u8[8 / 8 + (7 - 8 % 8)]\<close>,
  that is \<^verbatim>\<open>u8[8]\<close>, the most significant byte of lane 1.\<close>

theorem sha3_update_big_endian_byte_8:
  "map_option (\<lambda>c. (index c, u64_view \<lparr>big_endian = True, keccakf_loop = False\<rparr> (u8 c) ! 1))
     (sha3_update \<lparr>big_endian = True, keccakf_loop = False\<rparr>
        (sha3_init \<lparr>index = 0, rate = 0, digest_size = 0, u8 = []\<rparr> 32) 0
        [0, 0, 0, 0, 0, 0, 0, 0, 1])
   = Some (9, 0x0100000000000000)
   \<and> map_option (\<lambda>c. (index c, u64_view \<lparr>big_endian = False, keccakf_loop = False\<rparr> (u8 c) ! 1))
     (sha3_update \<lparr>big_endian = False, keccakf_loop = False\<rparr>
        (sha3_init \<lparr>index = 0, rate = 0, digest_size = 0, u8 = []\<rparr> 32) 0
        [0, 0, 0, 0, 0, 0, 0, 0, 1])
   = Some (9, 0x01)"
  by code_simp

text \<open>Claim C7, evaluated where it fails. On the big-endian build, with a fresh SHA3-256
  context and the sixteen bytes 0, 0, 0, 0, 0, 0, 0, 0, 1, 0, 0, 0, 0, 0, 0, 0, the
  word-at-a-time path and the byte loop leave different contexts: the word path XORs
  \<open>0x01\<close> into lane 1, the byte loop puts the ninth byte into \<^verbatim>\<open>u8[8]\<close>.\<close>

theorem sha3_update_aligned_big_endian_differs:
  "sha3_update_aligned \<lparr>big_endian = True, keccakf_loop = False\<rparr>
     (sha3_init \<lparr>index = 0, rate = 0, digest_size = 0, u8 = []\<rparr> 32)
     [0, 0, 0, 0, 0, 0, 0, 0, 1, 0, 0, 0, 0, 0, 0, 0]
   \<noteq> sha3_update_bytes \<lparr>big_endian = True, keccakf_loop = False\<rparr>
     (sha3_init \<lparr>index = 0, rate = 0, digest_size = 0, u8 = []\<rparr> 32)
     [0, 0, 0, 0, 0, 0, 0, 0, 1, 0, 0, 0, 0, 0, 0, 0]"
  by code_simp

section \<open>Claims about whole digests\<close>

text \<open>Claim C1, evaluated where it fails. FIPS 202 publishes the SHA3-256 digest of the
  empty message, \<open>a7ffc6f8 bf1ed766 51c14756 a061d662 f580ff4d e43b49fa 82d80a4b
  80f8434a\<close>. The little-endian build returns it. The big-endian build returns another
  digest: \<^verbatim>\<open>sha3_final\<close> XORs \<open>0x06\<close> into \<^verbatim>\<open>u8[0]\<close> and \<open>0x80\<close> into
  \<^verbatim>\<open>u8[135]\<close>, which on that host are the most significant byte of lane 0 and the least
  significant byte of lane 16, and it copies the lanes out most significant byte first.\<close>

theorem sha3_256_empty_big_endian_not_fips:
  "sha3_digest \<lparr>big_endian = False, keccakf_loop = False\<rparr>
     \<lparr>index = 0, rate = 0, digest_size = 0, u8 = []\<rparr> 32 [] =
   Some [0xa7, 0xff, 0xc6, 0xf8, 0xbf, 0x1e, 0xd7, 0x66, 0x51, 0xc1, 0x47, 0x56, 0xa0, 0x61,
        0xd6, 0x62, 0xf5, 0x80, 0xff, 0x4d, 0xe4, 0x3b, 0x49, 0xfa, 0x82, 0xd8, 0x0a, 0x4b,
        0x80, 0xf8, 0x43, 0x4a]
   \<and> sha3_digest \<lparr>big_endian = True, keccakf_loop = False\<rparr>
     \<lparr>index = 0, rate = 0, digest_size = 0, u8 = []\<rparr> 32 [] =
   Some [0x9f, 0x29, 0xa5, 0x8d, 0x4d, 0x8c, 0x44, 0x37, 0x4d, 0xa5, 0x6e, 0x6b, 0xf8, 0xee,
        0x63, 0xc5, 0x83, 0xb0, 0xf8, 0xfe, 0x59, 0x3c, 0x97, 0x35, 0x87, 0xba, 0x7e, 0xb1,
        0x84, 0x81, 0x23, 0xb5]
   \<and> sha3_digest \<lparr>big_endian = True, keccakf_loop = False\<rparr>
     \<lparr>index = 0, rate = 0, digest_size = 0, u8 = []\<rparr> 32 [] \<noteq>
   Some [0xa7, 0xff, 0xc6, 0xf8, 0xbf, 0x1e, 0xd7, 0x66, 0x51, 0xc1, 0x47, 0x56, 0xa0, 0x61,
        0xd6, 0x62, 0xf5, 0x80, 0xff, 0x4d, 0xe4, 0x3b, 0x49, 0xfa, 0x82, 0xd8, 0x0a, 0x4b,
        0x80, 0xf8, 0x43, 0x4a]"
  by (simp only: sha3_256_empty_little_endian sha3_256_empty_big_endian) simp

text \<open>Claim C3, evaluated where it fails. On the big-endian build the sixteen bytes
  0, 0, 0, 0, 0, 0, 0, 0, 1, 0, 0, 0, 0, 0, 0, 0 at an aligned address hash to one
  digest when given in a single call of \<^verbatim>\<open>sha3_update\<close> (the word path) and to another
  when given as nine bytes and then seven (the byte loop).\<close>

theorem sha3_256_chunking_big_endian_differs:
  "sha3_digest \<lparr>big_endian = True, keccakf_loop = False\<rparr>
     \<lparr>index = 0, rate = 0, digest_size = 0, u8 = []\<rparr> 32
     [(0, [0, 0, 0, 0, 0, 0, 0, 0, 0x01, 0, 0, 0, 0, 0, 0, 0])] \<noteq>
   sha3_digest \<lparr>big_endian = True, keccakf_loop = False\<rparr>
     \<lparr>index = 0, rate = 0, digest_size = 0, u8 = []\<rparr> 32
     [(0, [0, 0, 0, 0, 0, 0, 0, 0, 0x01]), (9, [0, 0, 0, 0, 0, 0, 0])]"
  by (simp only: sha3_256_one_call_big_endian sha3_256_two_calls_big_endian) simp

end
